theory Spec2Isabelle
  imports Complex_Main
begin

section \<open>Data model (types file and database schema)\<close>

text \<open>
  The closed string unions of the types file become datatypes; the CHECK
  constraints of the schema restrict the corresponding TEXT columns to the
  same values.
\<close>

datatype SyncStatus = Pending | Syncing | Synced | Failed

datatype SyncType = User_response | Location_update | Call_log

datatype CallStatus = Connecting | Connected | Disconnected | CallFailed

datatype UserResponseType = Safe | Need_assistance | Evacuating | Sheltering

text \<open>
  JavaScript values that travel as sync payloads (\<open>Record<string, unknown>\<close>).
  Numbers are IEEE doubles in the source; no arithmetic is done on them except
  the rounding of a call duration, so they are carried as real numbers.
\<close>

datatype json =
    JNull
  | JBool bool
  | JNum real
  | JStr string
  | JArr "json list"
  | JObj "(string \<times> json) list"

text \<open>
  One row of table \<open>sync_queue\<close>. Column \<open>created_at\<close> is the text
  \<open>datetime('now')\<close> (one-second resolution, compared as text, which is the
  chronological order); it is modelled as a number of seconds.
\<close>

record sync_row =
  sq_id :: string
  sq_type :: SyncType
  sq_payload :: string
  sq_created_at :: nat
  sq_status :: SyncStatus
  sq_retry_count :: int
  sq_last_error :: "string option"

text \<open>One row of table \<open>call_logs\<close>.\<close>

record call_row =
  cl_id :: string
  cl_alert_id :: "string option"
  cl_user_id :: string
  cl_hotline_number :: string
  cl_started_at :: string
  cl_ended_at :: "string option"
  cl_duration_seconds :: "int option"
  cl_recording_url :: "string option"
  cl_status :: CallStatus
  cl_synced_at :: "string option"

text \<open>One row of table \<open>user_responses\<close>; it is also the \<open>UserResponse\<close> object.\<close>

record UserResponse =
  ur_id :: string
  ur_alertId :: string
  ur_userId :: string
  ur_response :: UserResponseType
  ur_latitude :: "real option"
  ur_longitude :: "real option"
  ur_locationAccuracy :: "real option"
  ur_respondedAt :: string
  ur_syncedAt :: "string option"

text \<open>
  The database: four tables, each a list of rows in insertion order. Of table
  \<open>alerts\<close> only the primary keys matter here (the foreign keys of the other
  tables refer to them; \<open>PRAGMA foreign_keys = ON\<close>).
\<close>

record database =
  alerts :: "string list"
  user_responses :: "UserResponse list"
  call_logs :: "call_row list"
  sync_queue :: "sync_row list"

datatype store_error = PrimaryKeyViolation | ForeignKeyViolation

subsection \<open>Platform and environment\<close>

text \<open>
  \<open>JSON.stringify\<close>, \<open>JSON.parse\<close> (which throws a \<open>SyntaxError\<close> with a
  message) and \<open>Date.prototype.toISOString\<close> belong to the platform and are
  parameters of the model. Instants are whole milliseconds within the range of
  \<open>Date\<close>, where \<open>toISOString\<close> does not throw. Database statements other
  than the INSERTs cannot violate a constraint and are taken to succeed.
\<close>

record platform =
  JSON_stringify :: "json \<Rightarrow> string"
  JSON_parse :: "string \<Rightarrow> string + json"
  toISOString :: "int \<Rightarrow> string"

record NetInfoState =
  isConnected :: "bool option"
  isInternetReachable :: "bool option"

text \<open>JavaScript truthiness of a \<open>boolean | null\<close>.\<close>

definition truthy :: "bool option \<Rightarrow> bool" where
  "truthy b = (b = Some True)"

text \<open>A value thrown and caught: an \<open>Error\<close> with its message, or anything else.\<close>

datatype thrown = Error string | NonError

text \<open>
  What \<open>fetch\<close> does with a request: it rejects, or resolves to a response
  with \<open>ok\<close>, \<open>status\<close> and \<open>statusText\<close>.
\<close>

datatype fetch_outcome = Rejected thrown | Response bool nat string

text \<open>
  What one \<open>enqueue\<close> call reads from its environment: the id that
  \<open>generateId\<close> returns, the \<open>datetime('now')\<close> default of the INSERT and
  the answer of \<open>NetInfo.fetch\<close>.
\<close>

record enqueue_env =
  ee_generateId :: string
  ee_created_at :: nat
  ee_netState :: NetInfoState

text \<open>
  What one drain pass reads from its environment, per loop iteration (the
  index of the item in \<open>pendingItems\<close>): the outcome of the \<open>fetch\<close> call and
  the answer of \<open>NetInfo.fetch\<close> after a failure.
\<close>

record drain_env =
  de_fetch :: "nat \<Rightarrow> string \<Rightarrow> string \<Rightarrow> fetch_outcome"
  de_netState :: "nat \<Rightarrow> NetInfoState"

text \<open>
  The in-memory state of the two singleton services together with the
  database they share.
\<close>

record app_state =
  db :: database
  isSyncing :: bool
  activeCallId :: "string option"
  activeCallSid :: "string option"
  callStartTime :: "int option"

section \<open>OfflineSyncService\<close>

definition MAX_RETRIES :: int where
  "MAX_RETRIES = 5"

text \<open>Decimal text of a number, as a template literal renders it.\<close>

fun decimal :: "nat \<Rightarrow> string" where
  "decimal n =
     (if n < 10 then [char_of (48 + n)]
      else decimal (n div 10) @ [char_of (48 + n mod 10)])"

declare decimal.simps [simp del]

definition type_name :: "SyncType \<Rightarrow> string" where
  "type_name t =
     (case t of User_response \<Rightarrow> ''user_response''
      | Location_update \<Rightarrow> ''location_update''
      | Call_log \<Rightarrow> ''call_log'')"

text \<open>The static endpoint table of \<open>sendToBackend\<close>.\<close>

definition endpoints :: "SyncType \<Rightarrow> string option" where
  "endpoints t =
     (case t of User_response \<Rightarrow> Some ''/api/responses''
      | Location_update \<Rightarrow> Some ''/api/locations''
      | Call_log \<Rightarrow> Some ''/api/calls'')"

definition baseUrl :: string where
  "baseUrl = ''https://api.yourcompany.com''"

text \<open>
  \<open>sendToBackend(type, payload)\<close>: the request it makes, if it gets that far,
  and whether it returns (\<open>Inr\<close>) or throws (\<open>Inl\<close>). Its first argument is the
  \<open>fetch\<close> of this call.
\<close>

definition sendToBackend ::
  "platform \<Rightarrow> (string \<Rightarrow> string \<Rightarrow> fetch_outcome) \<Rightarrow> SyncType \<Rightarrow> json
     \<Rightarrow> (string \<times> string) option \<times> (thrown + unit)" where
  "sendToBackend pf fetch t payload =
     (case endpoints t of
        None \<Rightarrow> (None, Inl (Error (''Unknown sync type: '' @ type_name t)))
      | Some endpoint \<Rightarrow>
          (let url = baseUrl @ endpoint;
               body = JSON_stringify pf payload
           in (Some (url, body),
               (case fetch url body of
                  Rejected e \<Rightarrow> Inl e
                | Response ok status statusText \<Rightarrow>
                    if \<not> ok
                    then Inl (Error (''Sync failed: '' @ decimal status @ '' '' @ statusText))
                    else Inr ()))))"

text \<open>
  The statement \<open>await this.sendToBackend(item.type, JSON.parse(item.payload))\<close>:
  the argument is parsed first, and a parse error is thrown before any request.
\<close>

definition deliver ::
  "platform \<Rightarrow> (string \<Rightarrow> string \<Rightarrow> fetch_outcome) \<Rightarrow> sync_row
     \<Rightarrow> (string \<times> string) option \<times> (thrown + unit)" where
  "deliver pf fetch item =
     (case JSON_parse pf (sq_payload item) of
        Inl msg \<Rightarrow> (None, Inl (Error msg))
      | Inr payload \<Rightarrow> sendToBackend pf fetch (sq_type item) payload)"

text \<open>The three UPDATE statements of the drain loop.\<close>

definition mark_syncing :: "string \<Rightarrow> sync_row list \<Rightarrow> sync_row list" where
  "mark_syncing i rows =
     map (\<lambda>r. if sq_id r = i then r\<lparr>sq_status := Syncing\<rparr> else r) rows"

definition mark_synced :: "string \<Rightarrow> sync_row list \<Rightarrow> sync_row list" where
  "mark_synced i rows =
     map (\<lambda>r. if sq_id r = i then r\<lparr>sq_status := Synced, sq_last_error := None\<rparr> else r) rows"

definition mark_failed :: "string \<Rightarrow> string \<Rightarrow> sync_row list \<Rightarrow> sync_row list" where
  "mark_failed errorMessage i rows =
     map (\<lambda>r. if sq_id r = i
              then r\<lparr>sq_status := Failed, sq_retry_count := sq_retry_count r + 1,
                     sq_last_error := Some errorMessage\<rparr>
              else r) rows"

text \<open>
  The candidate query: status pending or failed, fewer than \<open>MAX_RETRIES\<close>
  retries, oldest first. Rows of equal \<open>created_at\<close> keep their table order
  (SQL leaves their order open).
\<close>

definition is_candidate :: "sync_row \<Rightarrow> bool" where
  "is_candidate r =
     ((sq_status r = Pending \<or> sq_status r = Failed) \<and> sq_retry_count r < MAX_RETRIES)"

definition selectPending :: "sync_row list \<Rightarrow> sync_row list" where
  "selectPending rows = sort_key sq_created_at (filter is_candidate rows)"

definition errorMessage_of :: "thrown \<Rightarrow> string" where
  "errorMessage_of e = (case e of Error m \<Rightarrow> m | NonError \<Rightarrow> ''Unknown error'')"

text \<open>
  One entry of the trace of a pass: the id of the item the loop body ran for
  and the request (url, body) it sent, if any.
\<close>

type_synonym attempt = "string \<times> (string \<times> string) option"

text \<open>
  The body of the \<open>for\<close> loop for the item at index \<open>k\<close>: the table after
  it, the request it sent, whether the item was synced, and whether the loop
  goes on (\<open>break\<close> when the connectivity query after a failure is falsy).
\<close>

definition processItem ::
  "platform \<Rightarrow> drain_env \<Rightarrow> nat \<Rightarrow> sync_row \<Rightarrow> sync_row list
     \<Rightarrow> sync_row list \<times> (string \<times> string) option \<times> bool \<times> bool" where
  "processItem pf env k item rows =
     (let rows1 = mark_syncing (sq_id item) rows;
          (request, outcome) = deliver pf (de_fetch env k) item
      in case outcome of
           Inr _ \<Rightarrow> (mark_synced (sq_id item) rows1, request, True, True)
         | Inl e \<Rightarrow>
             (mark_failed (errorMessage_of e) (sq_id item) rows1, request, False,
              truthy (isConnected (de_netState env k))))"

text \<open>
  The \<open>for\<close> loop over \<open>pendingItems\<close>, from index \<open>k\<close> on. It returns the
  table, \<open>syncedCount\<close> and the trace of the iterations it ran.
\<close>

fun drainLoop ::
  "platform \<Rightarrow> drain_env \<Rightarrow> nat \<Rightarrow> sync_row list \<Rightarrow> sync_row list \<Rightarrow> nat
     \<Rightarrow> sync_row list \<times> nat \<times> attempt list" where
  "drainLoop pf env k [] rows syncedCount = (rows, syncedCount, [])"
| "drainLoop pf env k (item # items) rows syncedCount =
     (let (rows1, request, synced, continue) = processItem pf env k item rows;
          syncedCount1 = (if synced then syncedCount + 1 else syncedCount)
      in if continue
         then (let (rows', n, tr) = drainLoop pf env (Suc k) items rows1 syncedCount1
               in (rows', n, (sq_id item, request) # tr))
         else (rows1, syncedCount1, [(sq_id item, request)]))"

text \<open>
  \<open>ORDER BY created_at DESC\<close> as SQLite runs it: newest first, and rows of
  equal \<open>created_at\<close> (the column has a resolution of one second) in the
  order the sorter reads them, which is the order of insertion. SQL itself
  leaves the order of such rows open.
\<close>

definition orderBy_created_at_desc :: "sync_row list \<Rightarrow> sync_row list" where
  "orderBy_created_at_desc rows = rev (sort_key sq_created_at (rev rows))"

text \<open>
  The cleanup DELETE: the subquery keeps the ids of the 100 most recently
  created synced rows; of rows created in the same second at the cut, those
  inserted first.
\<close>

definition keep_ids :: "sync_row list \<Rightarrow> string list" where
  "keep_ids rows =
     map sq_id (take 100 (orderBy_created_at_desc
       (filter (\<lambda>r. sq_status r = Synced) rows)))"

definition pruneSynced :: "sync_row list \<Rightarrow> sync_row list" where
  "pruneSynced rows =
     filter (\<lambda>r. \<not> (sq_status r = Synced \<and> sq_id r \<notin> set (keep_ids rows))) rows"

text \<open>The body of the \<open>try\<close> block: query, loop, cleanup.\<close>

definition drainPass ::
  "platform \<Rightarrow> drain_env \<Rightarrow> sync_row list \<Rightarrow> sync_row list \<times> nat \<times> attempt list" where
  "drainPass pf env rows =
     (let (rows', n, tr) = drainLoop pf env 0 (selectPending rows) rows 0
      in (pruneSynced rows', n, tr))"

text \<open>
  \<open>processSyncQueue\<close> up to its first \<open>await\<close>: the guard and the setting of
  the flag happen without interruption. \<open>None\<close> is the immediate \<open>return 0\<close>.
\<close>

definition processSyncQueue_begin :: "app_state \<Rightarrow> app_state option" where
  "processSyncQueue_begin s = (if isSyncing s then None else Some (s\<lparr>isSyncing := True\<rparr>))"

text \<open>The rest of the call: the \<open>try\<close> block and \<open>finally\<close>.\<close>

definition processSyncQueue_resume ::
  "platform \<Rightarrow> drain_env \<Rightarrow> app_state \<Rightarrow> nat \<times> app_state" where
  "processSyncQueue_resume pf env s =
     (let (rows', n, tr) = drainPass pf env (sync_queue (db s))
      in (n, s\<lparr>db := (db s)\<lparr>sync_queue := rows'\<rparr>, isSyncing := False\<rparr>))"

definition processSyncQueue :: "platform \<Rightarrow> drain_env \<Rightarrow> app_state \<Rightarrow> nat \<times> app_state" where
  "processSyncQueue pf env s =
     (case processSyncQueue_begin s of
        None \<Rightarrow> (0, s)
      | Some s1 \<Rightarrow> processSyncQueue_resume pf env s1)"

definition getPendingCount :: "app_state \<Rightarrow> nat" where
  "getPendingCount s =
     length (filter (\<lambda>r. sq_status r = Pending \<or> sq_status r = Failed) (sync_queue (db s)))"

text \<open>
  The INSERT of \<open>enqueue\<close>: columns \<open>created_at\<close>, \<open>retry_count\<close> and
  \<open>last_error\<close> take their defaults; the primary key must be new.
\<close>

definition insert_sync_row ::
  "string \<Rightarrow> SyncType \<Rightarrow> string \<Rightarrow> nat \<Rightarrow> sync_row list \<Rightarrow> store_error + sync_row list" where
  "insert_sync_row i t p now rows =
     (if i \<in> set (map sq_id rows) then Inl PrimaryKeyViolation
      else Inr (rows @ [\<lparr>sq_id = i, sq_type = t, sq_payload = p, sq_created_at = now,
                          sq_status = Pending, sq_retry_count = 0, sq_last_error = None\<rparr>]))"

text \<open>
  \<open>enqueue(type, payload)\<close>. The call of \<open>processSyncQueue\<close> is not awaited:
  it runs to its first \<open>await\<close> and the pass continues after \<open>enqueue\<close> has
  returned.
\<close>

definition enqueue ::
  "platform \<Rightarrow> enqueue_env \<Rightarrow> SyncType \<Rightarrow> json \<Rightarrow> app_state
     \<Rightarrow> (store_error + string) \<times> app_state" where
  "enqueue pf env t payload s =
     (let i = ee_generateId env
      in case insert_sync_row i t (JSON_stringify pf payload) (ee_created_at env)
                (sync_queue (db s)) of
           Inl e \<Rightarrow> (Inl e, s)
         | Inr rows \<Rightarrow>
             (let s1 = s\<lparr>db := (db s)\<lparr>sync_queue := rows\<rparr>\<rparr>;
                  netState = ee_netState env
              in if truthy (isConnected netState) \<and> truthy (isInternetReachable netState)
                 then (case processSyncQueue_begin s1 of
                         None \<Rightarrow> (Inr i, s1)
                       | Some s2 \<Rightarrow> (Inr i, s2))
                 else (Inr i, s1)))"

section \<open>CallService\<close>

text \<open>
  What \<open>makeHotlineCall\<close> reads from its environment: the id of
  \<open>generateId\<close>, the time of \<open>new Date()\<close> in milliseconds, whether the
  Twilio module was loaded, the token that \<open>fetchTwilioToken\<close> returns
  (\<open>None\<close> when it throws) and the sid of the call that \<open>connect\<close> returns
  for a token (\<open>None\<close> when it throws). The status callback of the screen and
  the CallKeep calls change nothing that is persisted and are left out.
\<close>

record call_env =
  ce_generateId :: string
  ce_now :: int
  ce_TwilioVoice :: bool
  ce_fetchTwilioToken :: "string option"
  ce_connect :: "string \<Rightarrow> string option"

text \<open>What \<open>handleCallEnd\<close> reads: the time of \<open>new Date()\<close>, and what its \<open>enqueue\<close> reads.\<close>

record end_env =
  he_now :: int
  he_enqueue :: enqueue_env

text \<open>The INSERT of \<open>persistCallLog\<close>: new primary key, and the alert, if given, exists.\<close>

definition persistCallLog :: "call_row \<Rightarrow> database \<Rightarrow> store_error + database" where
  "persistCallLog callLog d =
     (if cl_id callLog \<in> set (map cl_id (call_logs d)) then Inl PrimaryKeyViolation
      else if (case cl_alert_id callLog of None \<Rightarrow> False | Some a \<Rightarrow> a \<notin> set (alerts d))
      then Inl ForeignKeyViolation
      else Inr (d\<lparr>call_logs := call_logs d @ [callLog]\<rparr>))"

definition updateCallStatus :: "string \<Rightarrow> CallStatus \<Rightarrow> app_state \<Rightarrow> app_state" where
  "updateCallStatus callId status s =
     s\<lparr>db := (db s)\<lparr>call_logs :=
          map (\<lambda>r. if cl_id r = callId then r\<lparr>cl_status := status\<rparr> else r)
            (call_logs (db s))\<rparr>\<rparr>"

text \<open>The \<open>CallLog\<close> object that \<open>makeHotlineCall\<close> persists first.\<close>

definition newCallLog :: "platform \<Rightarrow> call_env \<Rightarrow> string \<Rightarrow> string option \<Rightarrow> call_row" where
  "newCallLog pf env hotlineNumber alertId =
     \<lparr>cl_id = ce_generateId env, cl_alert_id = alertId, cl_user_id = [],
      cl_hotline_number = hotlineNumber, cl_started_at = toISOString pf (ce_now env),
      cl_ended_at = None, cl_duration_seconds = None, cl_recording_url = None,
      cl_status = Connecting, cl_synced_at = None\<rparr>"

text \<open>
  \<open>makeHotlineCall(hotlineNumber, alertId, onStatusChange)\<close>. When the call
  is placed, the handlers below are registered for its events.
\<close>

definition makeHotlineCall ::
  "platform \<Rightarrow> call_env \<Rightarrow> string \<Rightarrow> string option \<Rightarrow> app_state
     \<Rightarrow> (store_error + string) \<times> app_state" where
  "makeHotlineCall pf env hotlineNumber alertId s =
     (let callId = ce_generateId env;
          s1 = s\<lparr>activeCallId := Some callId, callStartTime := Some (ce_now env)\<rparr>
      in case persistCallLog (newCallLog pf env hotlineNumber alertId) (db s1) of
           Inl e \<Rightarrow> (Inl e, s1)
         | Inr d \<Rightarrow>
             (let s2 = s1\<lparr>db := d\<rparr>
              in if \<not> ce_TwilioVoice env then (Inr callId, s2)
                 else (case ce_fetchTwilioToken env of
                         None \<Rightarrow> (Inr callId, updateCallStatus callId CallFailed s2)
                       | Some token \<Rightarrow>
                           (case ce_connect env token of
                              None \<Rightarrow> (Inr callId, updateCallStatus callId CallFailed s2)
                            | Some sid \<Rightarrow> (Inr callId, s2\<lparr>activeCallSid := Some sid\<rparr>)))))"

text \<open>
  \<open>Math.round((endTime - callStartTime) / 1000)\<close> on whole milliseconds:
  the nearest integer, a half rounded up.
\<close>

definition round_seconds :: "int \<Rightarrow> int" where
  "round_seconds ms = (ms + 500) div 1000"

text \<open>The UPDATE of \<open>handleCallEnd\<close>.\<close>

definition mark_disconnected ::
  "string \<Rightarrow> string \<Rightarrow> int option \<Rightarrow> call_row list \<Rightarrow> call_row list" where
  "mark_disconnected callId endedAt durationSeconds rows =
     map (\<lambda>r. if cl_id r = callId
              then r\<lparr>cl_status := Disconnected, cl_ended_at := Some endedAt,
                     cl_duration_seconds := durationSeconds\<rparr>
              else r) rows"

text \<open>The completion record that \<open>handleCallEnd\<close> enqueues.\<close>

definition callEnd_payload :: "string \<Rightarrow> string \<Rightarrow> int option \<Rightarrow> json" where
  "callEnd_payload callId endedAt durationSeconds =
     JObj [(''callId'', JStr callId), (''endedAt'', JStr endedAt),
           (''durationSeconds'',
            (case durationSeconds of Some d \<Rightarrow> JNum (of_int d) | None \<Rightarrow> JNull))]"

text \<open>
  \<open>handleCallEnd(callId)\<close>. An error of \<open>enqueue\<close> is thrown after the
  UPDATE and before the three fields are cleared.
\<close>

definition handleCallEnd ::
  "platform \<Rightarrow> end_env \<Rightarrow> string \<Rightarrow> app_state \<Rightarrow> (store_error + unit) \<times> app_state" where
  "handleCallEnd pf env callId s =
     (let endTime = he_now env;
          durationSeconds =
            (case callStartTime s of
               Some start \<Rightarrow> Some (round_seconds (endTime - start))
             | None \<Rightarrow> None);
          s1 = s\<lparr>db := (db s)\<lparr>call_logs :=
                 mark_disconnected callId (toISOString pf endTime) durationSeconds
                   (call_logs (db s))\<rparr>\<rparr>
      in case enqueue pf (he_enqueue env) Call_log
                (callEnd_payload callId (toISOString pf endTime) durationSeconds) s1 of
           (Inl e, s2) \<Rightarrow> (Inl e, s2)
         | (Inr _, s2) \<Rightarrow>
             (Inr (), s2\<lparr>activeCallId := None, activeCallSid := None,
                          callStartTime := None\<rparr>))"

text \<open>The handlers that \<open>makeHotlineCall\<close> registers for the events of its call.\<close>

definition on_connected :: "string \<Rightarrow> app_state \<Rightarrow> app_state" where
  "on_connected callId s = updateCallStatus callId Connected s"

definition on_disconnected ::
  "platform \<Rightarrow> end_env \<Rightarrow> string \<Rightarrow> app_state \<Rightarrow> (store_error + unit) \<times> app_state" where
  "on_disconnected pf env callId s = handleCallEnd pf env callId s"

definition on_connectFailure :: "string \<Rightarrow> app_state \<Rightarrow> app_state" where
  "on_connectFailure callId s = updateCallStatus callId CallFailed s"

text \<open>
  \<open>endCall()\<close>: the transport and CallKeep are told to end the call, and the
  end is handled for the active call, if there is one.
\<close>

definition endCall :: "platform \<Rightarrow> end_env \<Rightarrow> app_state \<Rightarrow> (store_error + unit) \<times> app_state" where
  "endCall pf env s =
     (case activeCallId s of
        None \<Rightarrow> (Inr (), s)
      | Some callId \<Rightarrow> handleCallEnd pf env callId s)"

section \<open>LocationService\<close>

text \<open>A position as expo-location reports it; \<open>timestamp\<close> in milliseconds.\<close>

record LocationObject =
  lo_latitude :: real
  lo_longitude :: real
  lo_accuracy :: "real option"
  lo_altitude :: "real option"
  lo_timestamp :: int

record LocationSnapshot =
  latitude :: real
  longitude :: real
  accuracy :: real
  altitude :: "real option"
  timestamp :: string

text \<open>
  The two provider calls: \<open>getCurrentPositionAsync\<close> returns a position or
  throws (\<open>None\<close>); \<open>getLastKnownPositionAsync\<close> returns a position or
  \<open>null\<close>, or throws (\<open>None\<close>).
\<close>

record location_env =
  le_getCurrentPosition :: "LocationObject option"
  le_getLastKnownPosition :: "LocationObject option option"

definition snapshot :: "platform \<Rightarrow> LocationObject \<Rightarrow> LocationSnapshot" where
  "snapshot pf location =
     \<lparr>latitude = lo_latitude location, longitude = lo_longitude location,
      accuracy = (case lo_accuracy location of Some a \<Rightarrow> a | None \<Rightarrow> - 1),
      altitude = lo_altitude location,
      timestamp = toISOString pf (lo_timestamp location)\<rparr>"

text \<open>
  \<open>captureLocation(timeoutMs)\<close>; the argument is handed to the provider as
  \<open>timeInterval\<close> and decides nothing here.
\<close>

definition captureLocation :: "platform \<Rightarrow> location_env \<Rightarrow> LocationSnapshot option" where
  "captureLocation pf env =
     (case le_getCurrentPosition env of
        Some location \<Rightarrow> Some (snapshot pf location)
      | None \<Rightarrow>
          (case le_getLastKnownPosition env of
             Some (Some lastKnown) \<Rightarrow> Some (snapshot pf lastKnown)
           | Some None \<Rightarrow> None
           | None \<Rightarrow> None))"

section \<open>ResponseService\<close>

record response_env =
  re_location :: location_env
  re_generateId :: string
  re_now :: int
  re_enqueue :: enqueue_env

definition response_name :: "UserResponseType \<Rightarrow> string" where
  "response_name t =
     (case t of Safe \<Rightarrow> ''safe'' | Need_assistance \<Rightarrow> ''need_assistance''
      | Evacuating \<Rightarrow> ''evacuating'' | Sheltering \<Rightarrow> ''sheltering'')"

definition json_number :: "real option \<Rightarrow> json" where
  "json_number x = (case x of Some v \<Rightarrow> JNum v | None \<Rightarrow> JNull)"

definition json_string :: "string option \<Rightarrow> json" where
  "json_string x = (case x of Some v \<Rightarrow> JStr v | None \<Rightarrow> JNull)"

text \<open>The object \<open>{ ...response }\<close> that is enqueued.\<close>

definition response_payload :: "UserResponse \<Rightarrow> json" where
  "response_payload r =
     JObj [(''id'', JStr (ur_id r)), (''alertId'', JStr (ur_alertId r)),
           (''userId'', JStr (ur_userId r)), (''response'', JStr (response_name (ur_response r))),
           (''latitude'', json_number (ur_latitude r)),
           (''longitude'', json_number (ur_longitude r)),
           (''locationAccuracy'', json_number (ur_locationAccuracy r)),
           (''respondedAt'', JStr (ur_respondedAt r)),
           (''syncedAt'', json_string (ur_syncedAt r))]"

text \<open>The INSERT of \<open>persistResponse\<close>: new primary key, and the alert exists.\<close>

definition persistResponse :: "UserResponse \<Rightarrow> database \<Rightarrow> store_error + database" where
  "persistResponse response d =
     (if ur_id response \<in> set (map ur_id (user_responses d)) then Inl PrimaryKeyViolation
      else if ur_alertId response \<notin> set (alerts d) then Inl ForeignKeyViolation
      else Inr (d\<lparr>user_responses := user_responses d @ [response]\<rparr>))"

text \<open>The \<open>UserResponse\<close> object that \<open>submitResponse\<close> builds.\<close>

definition newResponse ::
  "platform \<Rightarrow> response_env \<Rightarrow> string \<Rightarrow> string \<Rightarrow> UserResponseType
     \<Rightarrow> LocationSnapshot option \<Rightarrow> UserResponse" where
  "newResponse pf env alertId userId responseType location =
     \<lparr>ur_id = re_generateId env, ur_alertId = alertId, ur_userId = userId,
      ur_response = responseType,
      ur_latitude = map_option latitude location,
      ur_longitude = map_option longitude location,
      ur_locationAccuracy = map_option accuracy location,
      ur_respondedAt = toISOString pf (re_now env), ur_syncedAt = None\<rparr>"

text \<open>\<open>submitResponse(alertId, userId, responseType)\<close>.\<close>

definition submitResponse ::
  "platform \<Rightarrow> response_env \<Rightarrow> string \<Rightarrow> string \<Rightarrow> UserResponseType \<Rightarrow> app_state
     \<Rightarrow> (store_error + UserResponse) \<times> app_state" where
  "submitResponse pf env alertId userId responseType s =
     (let location = captureLocation pf (re_location env);
          response = newResponse pf env alertId userId responseType location
      in case persistResponse response (db s) of
           Inl e \<Rightarrow> (Inl e, s)
         | Inr d \<Rightarrow>
             (case enqueue pf (re_enqueue env) User_response (response_payload response)
                     (s\<lparr>db := d\<rparr>) of
                (Inl e, s1) \<Rightarrow> (Inl e, s1)
              | (Inr _, s1) \<Rightarrow> (Inr response, s1)))"

section \<open>Auxiliary notions\<close>

text \<open>The loop body as one update of the rows with the item's id.\<close>

definition item_update ::
  "platform \<Rightarrow> drain_env \<Rightarrow> nat \<Rightarrow> sync_row \<Rightarrow> sync_row \<Rightarrow> sync_row" where
  "item_update pf env k item r =
     (case snd (deliver pf (de_fetch env k) item) of
        Inr _ \<Rightarrow> r\<lparr>sq_status := Synced, sq_last_error := None\<rparr>
      | Inl e \<Rightarrow> r\<lparr>sq_status := Failed, sq_retry_count := sq_retry_count r + 1,
                     sq_last_error := Some (errorMessage_of e)\<rparr>)"

text \<open>Ids are a primary key, and no row has more than \<open>MAX_RETRIES\<close> retries.\<close>

definition queue_ok :: "sync_row list \<Rightarrow> bool" where
  "queue_ok rows =
     (distinct (map sq_id rows) \<and> (\<forall>r\<in>set rows. sq_retry_count r \<le> MAX_RETRIES))"




text \<open>
  No function of the source: the operations that touch the queue, as the
  event loop runs them, each taken as one step. They are a call of
  \<open>enqueue\<close>, a call of \<open>processSyncQueue\<close> that runs to its end
  (connectivity regained, background wake), and the rest of a pass that
  \<open>enqueue\<close> has started.
\<close>

datatype queue_op =
    Enqueue enqueue_env SyncType json
  | ProcessQueue drain_env
  | PassCompletes drain_env

fun apply_op :: "platform \<Rightarrow> queue_op \<Rightarrow> app_state \<Rightarrow> app_state" where
  "apply_op pf (Enqueue env t payload) s = snd (enqueue pf env t payload s)"
| "apply_op pf (ProcessQueue env) s = snd (processSyncQueue pf env s)"
| "apply_op pf (PassCompletes env) s =
     (if isSyncing s then snd (processSyncQueue_resume pf env s) else s)"

fun run_ops :: "platform \<Rightarrow> queue_op list \<Rightarrow> app_state \<Rightarrow> app_state" where
  "run_ops pf [] s = s"
| "run_ops pf (op # ops) s = run_ops pf ops (apply_op pf op s)"


section \<open>Fixtures for concrete runs\<close>

text \<open>
  A stand-in for the platform, enough to run the scenarios below: its JSON
  codec knows the empty object only, and an instant is rendered as its decimal
  number of milliseconds.
\<close>

definition demo_platform :: platform where
  "demo_platform =
     \<lparr>JSON_stringify = (\<lambda>j. case j of JObj [] \<Rightarrow> ''{}'' | _ \<Rightarrow> ''null''),
      JSON_parse = (\<lambda>s. if s = ''{}'' then Inr (JObj []) else Inl ''Unexpected token''),
      toISOString = (\<lambda>t. decimal (nat t))\<rparr>"

definition online :: NetInfoState where
  "online = \<lparr>isConnected = Some True, isInternetReachable = Some True\<rparr>"

definition offline :: NetInfoState where
  "offline = \<lparr>isConnected = Some False, isInternetReachable = Some False\<rparr>"

text \<open>A backend that answers every request with 503, on a network that stays up.\<close>

definition env_503 :: drain_env where
  "env_503 =
     \<lparr>de_fetch = (\<lambda>k url body. Response False 503 ''Service Unavailable''),
      de_netState = (\<lambda>k. online)\<rparr>"

definition queue_row :: "string \<Rightarrow> nat \<Rightarrow> SyncStatus \<Rightarrow> int \<Rightarrow> sync_row" where
  "queue_row i t st n =
     \<lparr>sq_id = i, sq_type = Call_log, sq_payload = ''{}'', sq_created_at = t, sq_status = st,
      sq_retry_count = n, sq_last_error = None\<rparr>"

definition state_of :: "sync_row list \<Rightarrow> app_state" where
  "state_of rows =
     \<lparr>db = \<lparr>alerts = [], user_responses = [], call_logs = [], sync_queue = rows\<rparr>,
      isSyncing = False, activeCallId = None, activeCallSid = None, callStartTime = None\<rparr>"

text \<open>A queue with an exhausted item and an item on its last retry.\<close>

definition last_retry_state :: app_state where
  "last_retry_state = state_of [queue_row ''x'' 0 Failed 5, queue_row ''a'' 1 Failed 4]"

definition enqueue_at :: "string \<Rightarrow> nat \<Rightarrow> NetInfoState \<Rightarrow> enqueue_env" where
  "enqueue_at i t net = \<lparr>ee_generateId = i, ee_created_at = t, ee_netState = net\<rparr>"

text \<open>Three items created at times 1, 2 and 3.\<close>

definition three_items :: "sync_row list" where
  "three_items =
     [queue_row ''c'' 3 Pending 0, queue_row ''a'' 1 Pending 0, queue_row ''b'' 2 Pending 0]"

text \<open>A network that is down: every request is rejected, and the query says offline.\<close>

definition env_down :: drain_env where
  "env_down =
     \<lparr>de_fetch = (\<lambda>k url body. Rejected (Error ''Network request failed'')),
      de_netState = (\<lambda>k. offline)\<rparr>"

text \<open>A backend that accepts every request.\<close>

definition env_ok :: drain_env where
  "env_ok = \<lparr>de_fetch = (\<lambda>k url body. Response True 200 ''OK''), de_netState = (\<lambda>k. online)\<rparr>"


text \<open>A queue of \<open>n\<close> pending items, item \<open>i\<close> created at time \<open>i\<close>.\<close>

definition pending_rows :: "nat \<Rightarrow> sync_row list" where
  "pending_rows n = map (\<lambda>i. queue_row (replicate (Suc i) CHR ''q'') i Pending 0) [0..<n]"

text \<open>A call placed at time 0 over a transport that accepts it.\<close>

definition call_env_ok :: call_env where
  "call_env_ok =
     \<lparr>ce_generateId = ''call-1'', ce_now = 0, ce_TwilioVoice = True,
      ce_fetchTwilioToken = Some ''token'', ce_connect = (\<lambda>token. Some ''CA1'')\<rparr>"

definition placed_call :: app_state where
  "placed_call = snd (makeHotlineCall demo_platform call_env_ok ''911'' None (state_of []))"

text \<open>The call is connected, and the user ends it after a minute.\<close>

definition first_end :: end_env where
  "first_end = \<lparr>he_now = 60000, he_enqueue = enqueue_at ''q1'' 60 offline\<rparr>"

definition second_end :: end_env where
  "second_end = \<lparr>he_now = 61000, he_enqueue = enqueue_at ''q2'' 61 offline\<rparr>"

definition ended_call :: app_state where
  "ended_call = snd (endCall demo_platform first_end (on_connected ''call-1'' placed_call))"

text \<open>An alert is known; the position request throws and so does the fallback.\<close>

definition alert_state :: app_state where
  "alert_state =
     \<lparr>db = \<lparr>alerts = [''A1''], user_responses = [], call_logs = [], sync_queue = []\<rparr>,
      isSyncing = False, activeCallId = None, activeCallSid = None, callStartTime = None\<rparr>"

definition no_location :: location_env where
  "no_location = \<lparr>le_getCurrentPosition = None, le_getLastKnownPosition = None\<rparr>"

definition response_env_demo :: response_env where
  "response_env_demo =
     \<lparr>re_location = no_location, re_generateId = ''resp-1'', re_now = 5000,
      re_enqueue = enqueue_at ''q1'' 5 offline\<rparr>"

text \<open>Six \<open>call_log\<close> items, and a backend that always answers 503.\<close>

definition six_items :: app_state where
  "six_items = state_of (pending_rows 6)"

definition after_five_passes :: app_state where
  "after_five_passes =
     run_ops demo_platform
       [ProcessQueue env_503, ProcessQueue env_503, ProcessQueue env_503, ProcessQueue env_503,
        ProcessQueue env_503] six_items"




section \<open>The drain loop\<close>

lemma ids_mark_syncing [simp]: "map sq_id (mark_syncing i rows) = map sq_id rows"
  by (induction rows) (simp_all add: mark_syncing_def)

lemma ids_mark_synced [simp]: "map sq_id (mark_synced i rows) = map sq_id rows"
  by (induction rows) (simp_all add: mark_synced_def)

lemma ids_mark_failed [simp]: "map sq_id (mark_failed m i rows) = map sq_id rows"
  by (induction rows) (simp_all add: mark_failed_def)

lemma processItem_rows:
  "fst (processItem pf env k item rows) =
     map (\<lambda>r. if sq_id r = sq_id item then item_update pf env k item r else r) rows"
  by (induction rows)
     (auto simp: processItem_def Let_def item_update_def mark_syncing_def mark_synced_def
        mark_failed_def split: prod.splits sum.splits)

lemma processItem_ids [simp]: "map sq_id (fst (processItem pf env k item rows)) = map sq_id rows"
  by (simp add: processItem_rows comp_def if_distrib [of sq_id] item_update_def
        split: sum.splits cong: if_cong)

lemma drainLoop_Cons:
  "drainLoop pf env k (item # items) rows n =
     (let p = processItem pf env k item rows;
          n1 = (if fst (snd (snd p)) then n + 1 else n);
          rest = drainLoop pf env (Suc k) items (fst p) n1
      in if snd (snd (snd p))
         then (fst rest, fst (snd rest), (sq_id item, fst (snd p)) # snd (snd rest))
         else (fst p, n1, [(sq_id item, fst (snd p))]))"
  by (simp add: Let_def case_prod_beta)

declare drainLoop.simps(2) [simp del]

lemma drainLoop_ids:
  "map sq_id (fst (drainLoop pf env k items rows n)) = map sq_id rows"
  by (induction items arbitrary: k rows n) (simp_all add: drainLoop_Cons Let_def)



lemma processItem_continue:
  "snd (snd (snd (processItem pf env k item rows))) =
     (case snd (deliver pf (de_fetch env k) item) of
        Inr _ \<Rightarrow> True | Inl _ \<Rightarrow> truthy (isConnected (de_netState env k)))"
  by (simp add: processItem_def Let_def case_prod_beta split: sum.splits)

lemma drainLoop_trace_prefix:
  "map fst (snd (snd (drainLoop pf env k items rows n))) =
     take (length (snd (snd (drainLoop pf env k items rows n)))) (map sq_id items)"
  by (induction items arbitrary: k rows n) (simp_all add: drainLoop_Cons Let_def)

lemma drainLoop_abort:
  "j < length items \<Longrightarrow> snd (deliver pf (de_fetch env (k + j)) (items ! j)) = Inl e \<Longrightarrow>
   \<not> truthy (isConnected (de_netState env (k + j))) \<Longrightarrow>
   length (snd (snd (drainLoop pf env k items rows n))) \<le> Suc j"
proof (induction items arbitrary: k rows n j)
  case Nil
  then show ?case by simp
next
  case (Cons item items)
  show ?case
  proof (cases j)
    case 0
    with Cons.prems show ?thesis
      by (simp add: drainLoop_Cons Let_def processItem_continue)
  next
    case (Suc j')
    with Cons.prems have "length (snd (snd (drainLoop pf env (Suc k) items rows' n'))) \<le> Suc j'"
      for rows' n'
      by (intro Cons.IH [of j' "Suc k"]) simp_all
    with Suc show ?thesis
      by (simp add: drainLoop_Cons Let_def)
  qed
qed

lemma processItem_other:
  "r \<in> set rows \<Longrightarrow> sq_id r \<noteq> sq_id item \<Longrightarrow> r \<in> set (fst (processItem pf env k item rows))"
  by (force simp: processItem_rows)

lemma drainLoop_untouched:
  "r \<in> set rows \<Longrightarrow> sq_id r \<notin> fst ` set (snd (snd (drainLoop pf env k items rows n))) \<Longrightarrow>
   r \<in> set (fst (drainLoop pf env k items rows n))"
proof (induction items arbitrary: k rows n)
  case Nil
  then show ?case by simp
next
  case (Cons item items)
  from Cons.prems(2) have ne: "sq_id r \<noteq> sq_id item"
    by (auto simp: drainLoop_Cons Let_def split: if_splits)
  with Cons.prems(1) have r1: "r \<in> set (fst (processItem pf env k item rows))"
    by (rule processItem_other)
  show ?case
  proof (cases "snd (snd (snd (processItem pf env k item rows)))")
    case True
    with Cons.prems(2) Cons.IH [OF r1] show ?thesis
      by (simp add: drainLoop_Cons Let_def)
  next
    case False
    with r1 show ?thesis
      by (simp add: drainLoop_Cons Let_def)
  qed
qed


section \<open>Invariant of the queue\<close>

lemma selectPending_set: "set (selectPending rows) = {r \<in> set rows. is_candidate r}"
  by (simp add: selectPending_def)

lemma selectPending_sorted: "sorted (map sq_created_at (selectPending rows))"
  by (simp add: selectPending_def)

lemma distinct_ids_filter: "distinct (map sq_id rows) \<Longrightarrow> distinct (map sq_id (filter P rows))"
  by (rule distinct_map_filter)

lemma distinct_ids_sort:
  "distinct (map sq_id rows) \<Longrightarrow> distinct (map sq_id (sort_key sq_created_at rows))"
  by (simp add: distinct_map)

lemma selectPending_distinct:
  "distinct (map sq_id rows) \<Longrightarrow> distinct (map sq_id (selectPending rows))"
  by (simp add: selectPending_def distinct_ids_sort distinct_ids_filter)

lemma same_id_same_row:
  "distinct (map sq_id rows) \<Longrightarrow> r \<in> set rows \<Longrightarrow> r' \<in> set rows \<Longrightarrow> sq_id r = sq_id r' \<Longrightarrow> r = r'"
  by (auto simp: distinct_map dest: inj_onD)

lemma pruneSynced_subset: "set (pruneSynced rows) \<subseteq> set rows"
  by (auto simp: pruneSynced_def)

lemma pruneSynced_distinct:
  "distinct (map sq_id rows) \<Longrightarrow> distinct (map sq_id (pruneSynced rows))"
  by (simp add: pruneSynced_def distinct_ids_filter)

lemma pruneSynced_keeps_unsynced:
  "r \<in> set rows \<Longrightarrow> sq_status r \<noteq> Synced \<Longrightarrow> r \<in> set (pruneSynced rows)"
  by (simp add: pruneSynced_def)

lemma processItem_retry:
  assumes "r' \<in> set (fst (processItem pf env k item rows))"
  shows "\<exists>r\<in>set rows. sq_id r' = sq_id r \<and>
           (if sq_id r = sq_id item
            then sq_retry_count r' \<le> sq_retry_count r + 1
            else r' = r)"
proof -
  from assms obtain r where r: "r \<in> set rows"
    "r' = (if sq_id r = sq_id item then item_update pf env k item r else r)"
    by (auto simp: processItem_rows)
  have "sq_id (item_update pf env k item r) = sq_id r"
    "sq_retry_count (item_update pf env k item r) \<le> sq_retry_count r + 1"
    by (simp_all add: item_update_def split: sum.splits)
  with r show ?thesis by (intro bexI [of _ r]) auto
qed

lemma drainLoop_retry_bounded:
  "distinct (map sq_id items) \<Longrightarrow>
   \<forall>r\<in>set rows. sq_retry_count r \<le> MAX_RETRIES \<and>
      (sq_id r \<in> sq_id ` set items \<longrightarrow> sq_retry_count r < MAX_RETRIES) \<Longrightarrow>
   r' \<in> set (fst (drainLoop pf env k items rows n)) \<Longrightarrow>
   sq_retry_count r' \<le> MAX_RETRIES"
proof (induction items arbitrary: k rows n)
  case Nil
  then show ?case by simp
next
  case (Cons item items)
  let ?p = "processItem pf env k item rows"
  have inv1: "\<forall>r\<in>set (fst ?p). sq_retry_count r \<le> MAX_RETRIES \<and>
      (sq_id r \<in> sq_id ` set items \<longrightarrow> sq_retry_count r < MAX_RETRIES)"
  proof
    fix r1 assume "r1 \<in> set (fst ?p)"
    from processItem_retry [OF this] obtain r where r: "r \<in> set rows" "sq_id r1 = sq_id r"
      "if sq_id r = sq_id item then sq_retry_count r1 \<le> sq_retry_count r + 1 else r1 = r"
      by blast
    from Cons.prems(1) have notin: "sq_id item \<notin> sq_id ` set items" by simp
    from Cons.prems(2) r(1) have b: "sq_retry_count r \<le> MAX_RETRIES"
      "sq_id r \<in> sq_id ` set (item # items) \<longrightarrow> sq_retry_count r < MAX_RETRIES" by auto
    show "sq_retry_count r1 \<le> MAX_RETRIES \<and>
      (sq_id r1 \<in> sq_id ` set items \<longrightarrow> sq_retry_count r1 < MAX_RETRIES)"
    proof (cases "sq_id r = sq_id item")
      case True
      with r b notin show ?thesis by auto
    next
      case False
      with r b show ?thesis by auto
    qed
  qed
  from Cons.prems(1) have d: "distinct (map sq_id items)" by simp
  show ?case
  proof (cases "snd (snd (snd ?p))")
    case True
    with Cons.prems(3) have "r' \<in> set (fst (drainLoop pf env (Suc k) items (fst ?p)
        (if fst (snd (snd ?p)) then n + 1 else n)))"
      by (simp add: drainLoop_Cons Let_def)
    from Cons.IH [OF d inv1 this] show ?thesis .
  next
    case False
    with Cons.prems(3) have "r' \<in> set (fst ?p)"
      by (simp add: drainLoop_Cons Let_def)
    with inv1 show ?thesis by blast
  qed
qed

lemma drainPass_rows:
  "fst (drainPass pf env rows) =
     pruneSynced (fst (drainLoop pf env 0 (selectPending rows) rows 0))"
  by (simp add: drainPass_def case_prod_beta)

lemma drainPass_queue_ok:
  assumes "queue_ok rows"
  shows "queue_ok (fst (drainPass pf env rows))"
proof -
  let ?loop = "fst (drainLoop pf env 0 (selectPending rows) rows 0)"
  from assms have d: "distinct (map sq_id rows)" by (simp add: queue_ok_def)
  have "\<forall>r\<in>set rows. sq_retry_count r \<le> MAX_RETRIES \<and>
      (sq_id r \<in> sq_id ` set (selectPending rows) \<longrightarrow> sq_retry_count r < MAX_RETRIES)"
  proof
    fix r assume r: "r \<in> set rows"
    have "sq_retry_count r < MAX_RETRIES" if "sq_id r \<in> sq_id ` set (selectPending rows)"
    proof -
      from that obtain c where c: "c \<in> set rows" "is_candidate c" "sq_id r = sq_id c"
        by (auto simp: selectPending_set)
      with same_id_same_row [OF d r c(1)] show ?thesis by (simp add: is_candidate_def)
    qed
    with assms r show "sq_retry_count r \<le> MAX_RETRIES \<and>
      (sq_id r \<in> sq_id ` set (selectPending rows) \<longrightarrow> sq_retry_count r < MAX_RETRIES)"
      by (simp add: queue_ok_def)
  qed
  with selectPending_distinct [OF d]
  have "\<forall>r'\<in>set ?loop. sq_retry_count r' \<le> MAX_RETRIES"
    by (blast intro: drainLoop_retry_bounded)
  moreover have "distinct (map sq_id ?loop)"
    using d by (simp add: drainLoop_ids)
  ultimately show ?thesis
    using pruneSynced_subset [of ?loop]
    by (auto simp: queue_ok_def drainPass_rows pruneSynced_distinct)
qed

lemma resume_rows:
  "sync_queue (db (snd (processSyncQueue_resume pf env s))) = fst (drainPass pf env (sync_queue (db s)))"
  by (simp add: processSyncQueue_resume_def case_prod_beta)

lemma processSyncQueue_rows:
  "sync_queue (db (snd (processSyncQueue pf env s))) =
     (if isSyncing s then sync_queue (db s) else fst (drainPass pf env (sync_queue (db s))))"
  by (simp add: processSyncQueue_def processSyncQueue_begin_def resume_rows
        processSyncQueue_resume_def case_prod_beta)

lemma enqueue_rows:
  "sync_queue (db (snd (enqueue pf env t payload s))) =
     (case insert_sync_row (ee_generateId env) t (JSON_stringify pf payload) (ee_created_at env)
             (sync_queue (db s)) of
        Inl e \<Rightarrow> sync_queue (db s) | Inr rows \<Rightarrow> rows)"
  by (simp add: enqueue_def Let_def processSyncQueue_begin_def split: sum.splits)

lemma insert_sync_row_queue_ok:
  "queue_ok rows \<Longrightarrow> insert_sync_row i t p now rows = Inr rows' \<Longrightarrow> queue_ok rows'"
  by (auto simp: insert_sync_row_def queue_ok_def MAX_RETRIES_def split: if_splits)

lemma enqueue_queue_ok:
  "queue_ok (sync_queue (db s)) \<Longrightarrow> queue_ok (sync_queue (db (snd (enqueue pf env t payload s))))"
  by (auto simp: enqueue_rows split: sum.splits dest: insert_sync_row_queue_ok)

lemma apply_op_queue_ok:
  "queue_ok (sync_queue (db s)) \<Longrightarrow> queue_ok (sync_queue (db (apply_op pf op s)))"
  by (cases op) (simp_all add: enqueue_queue_ok processSyncQueue_rows resume_rows drainPass_queue_ok)

lemma run_ops_queue_ok:
  "queue_ok (sync_queue (db s)) \<Longrightarrow> queue_ok (sync_queue (db (run_ops pf ops s)))"
  by (induction ops arbitrary: s) (simp_all add: apply_op_queue_ok)

text \<open>A row that is not a candidate and not synced is left as it is by a pass.\<close>

lemma drainLoop_trace_ids:
  "fst ` set (snd (snd (drainLoop pf env k items rows n))) \<subseteq> sq_id ` set items"
proof -
  have "set (map fst (snd (snd (drainLoop pf env k items rows n)))) \<subseteq> set (map sq_id items)"
    by (subst drainLoop_trace_prefix) (rule set_take_subset)
  then show ?thesis by simp
qed

lemma drainPass_keeps:
  assumes d: "distinct (map sq_id rows)" and r: "r \<in> set rows"
    and nc: "\<not> is_candidate r" and ns: "sq_status r \<noteq> Synced"
  shows "r \<in> set (fst (drainPass pf env rows))"
proof -
  have "sq_id r \<notin> sq_id ` set (selectPending rows)"
  proof
    assume "sq_id r \<in> sq_id ` set (selectPending rows)"
    then obtain c where c: "c \<in> set rows" "is_candidate c" "sq_id r = sq_id c"
      by (auto simp: selectPending_set)
    with same_id_same_row [OF d r c(1)] nc show False by simp
  qed
  with drainLoop_trace_ids [of pf env 0 "selectPending rows" rows 0]
  have "sq_id r \<notin> fst ` set (snd (snd (drainLoop pf env 0 (selectPending rows) rows 0)))"
    by blast
  with r have "r \<in> set (fst (drainLoop pf env 0 (selectPending rows) rows 0))"
    by (rule drainLoop_untouched)
  with ns show ?thesis
    by (simp add: drainPass_rows pruneSynced_keeps_unsynced)
qed

lemma insert_sync_row_keeps:
  "insert_sync_row i t p now rows = Inr rows' \<Longrightarrow> r \<in> set rows \<Longrightarrow> r \<in> set rows'"
  by (auto simp: insert_sync_row_def split: if_splits)

lemma apply_op_keeps:
  assumes "queue_ok (sync_queue (db s))" and "r \<in> set (sync_queue (db s))"
    and "\<not> is_candidate r" and "sq_status r \<noteq> Synced"
  shows "r \<in> set (sync_queue (db (apply_op pf op s)))"
proof (cases op)
  case (Enqueue env t payload)
  with assms(2) show ?thesis
    by (auto simp: enqueue_rows split: sum.splits dest: insert_sync_row_keeps)
next
  case (ProcessQueue env)
  with assms show ?thesis
    by (simp add: processSyncQueue_rows queue_ok_def drainPass_keeps)
next
  case (PassCompletes env)
  with assms show ?thesis
    by (simp add: resume_rows queue_ok_def drainPass_keeps)
qed

lemma run_ops_keeps:
  "queue_ok (sync_queue (db s)) \<Longrightarrow> r \<in> set (sync_queue (db s)) \<Longrightarrow>
   \<not> is_candidate r \<Longrightarrow> sq_status r \<noteq> Synced \<Longrightarrow>
   r \<in> set (sync_queue (db (run_ops pf ops s)))"
proof (induction ops arbitrary: s)
  case Nil
  then show ?case by simp
next
  case (Cons op ops)
  from Cons.prems have "queue_ok (sync_queue (db (apply_op pf op s)))"
    "r \<in> set (sync_queue (db (apply_op pf op s)))"
    by (simp_all add: apply_op_queue_ok apply_op_keeps)
  with Cons.IH [of "apply_op pf op s"] Cons.prems(3,4) show ?case by simp
qed

lemma processItem_failed_row:
  assumes "r \<in> set rows" and "sq_id r = sq_id item"
    and "snd (deliver pf (de_fetch env k) item) = Inl e"
  shows "r\<lparr>sq_status := Failed, sq_retry_count := sq_retry_count r + 1,
            sq_last_error := Some (errorMessage_of e)\<rparr>
           \<in> set (fst (processItem pf env k item rows))"
proof -
  from assms(2,3) have "item_update pf env k item r =
      r\<lparr>sq_status := Failed, sq_retry_count := sq_retry_count r + 1,
        sq_last_error := Some (errorMessage_of e)\<rparr>"
    by (simp add: item_update_def)
  with assms(1,2) show ?thesis
    by (force simp: processItem_rows)
qed

lemma later_item_not_in_prefix:
  assumes srt: "sorted (map sq_created_at cands)" and d: "distinct (map sq_id cands)"
    and j: "j < length cands" and l: "later \<in> set cands"
    and lt: "sq_created_at (cands ! j) < sq_created_at later"
  shows "sq_id later \<notin> set (take (Suc j) (map sq_id cands))"
proof
  assume "sq_id later \<in> set (take (Suc j) (map sq_id cands))"
  then obtain i where i: "i < Suc j" "i < length cands" "sq_id (cands ! i) = sq_id later"
    by (auto simp: in_set_conv_nth)
  from l obtain m where m: "m < length cands" "cands ! m = later"
    by (auto simp: in_set_conv_nth)
  from i(2,3) m have "map sq_id cands ! i = map sq_id cands ! m" by simp
  with d i(2) m(1) have "i = m"
    using nth_eq_iff_index_eq [of "map sq_id cands" i m] by simp
  with i(1) m have "sq_created_at later \<le> sq_created_at (cands ! j)"
    using sorted_nth_mono [OF srt, of m j] j by simp
  with lt show False by simp
qed

lemma drainPass_trace:
  "snd (snd (drainPass pf env rows)) = snd (snd (drainLoop pf env 0 (selectPending rows) rows 0))"
  by (simp add: drainPass_def case_prod_beta)

section \<open>The cleanup\<close>


lemma orderBy_created_at_desc_set [simp]: "set (orderBy_created_at_desc rows) = set rows"
  by (simp add: orderBy_created_at_desc_def)

lemma orderBy_created_at_desc_length [simp]:
  "length (orderBy_created_at_desc rows) = length rows"
  by (simp add: orderBy_created_at_desc_def)

lemma orderBy_created_at_desc_distinct [simp]:
  "distinct (orderBy_created_at_desc rows) = distinct rows"
  by (simp add: orderBy_created_at_desc_def)
















section \<open>The backlog at the cut\<close>









section \<open>A pass in which every delivery succeeds\<close>












section \<open>The columns that no statement updates\<close>








section \<open>Call lifecycle\<close>

lemma updateCallStatus_rows:
  "call_logs (db (updateCallStatus callId status s)) =
     map (\<lambda>r. if cl_id r = callId then r\<lparr>cl_status := status\<rparr> else r) (call_logs (db s))"
  by (simp add: updateCallStatus_def)

lemma updateCallStatus_frame:
  "sync_queue (db (updateCallStatus callId status s)) = sync_queue (db s) \<and>
   user_responses (db (updateCallStatus callId status s)) = user_responses (db s) \<and>
   alerts (db (updateCallStatus callId status s)) = alerts (db s) \<and>
   isSyncing (updateCallStatus callId status s) = isSyncing s"
  by (simp add: updateCallStatus_def)

lemma updateCallStatus_ids:
  "map cl_id (call_logs (db (updateCallStatus callId status s))) = map cl_id (call_logs (db s))"
proof -
  have "map cl_id (map (\<lambda>r. if cl_id r = callId then r\<lparr>cl_status := status\<rparr> else r) rows) =
      map cl_id rows" for rows
    by (induction rows) simp_all
  then show ?thesis by (simp only: updateCallStatus_rows)
qed

lemma updateCallStatus_id_set:
  "cl_id ` set (call_logs (db (updateCallStatus callId status s))) = cl_id ` set (call_logs (db s))"
  using updateCallStatus_ids [of callId status s] by (simp only: set_map [symmetric])

lemma updateCallStatus_status:
  assumes "r \<in> set (call_logs (db (updateCallStatus callId status s)))" and "cl_id r = callId"
  shows "cl_status r = status"
proof -
  from assms(1) obtain r0 where "r0 \<in> set (call_logs (db s))"
    "r = (if cl_id r0 = callId then r0\<lparr>cl_status := status\<rparr> else r0)"
    unfolding updateCallStatus_rows by auto
  with assms(2) show ?thesis by (cases "cl_id r0 = callId") simp_all
qed

lemma persistCallLog_Inr:
  "persistCallLog callLog d = Inr d' \<Longrightarrow>
   call_logs d' = call_logs d @ [callLog] \<and> sync_queue d' = sync_queue d"
  by (auto simp: persistCallLog_def split: if_splits)

lemma makeHotlineCall_placed:
  assumes "fst (makeHotlineCall pf env hotlineNumber alertId s) = Inr callId"
  shows "callId = ce_generateId env \<and>
    callId \<in> cl_id ` set (call_logs (db (snd (makeHotlineCall pf env hotlineNumber alertId s)))) \<and>
    sync_queue (db (snd (makeHotlineCall pf env hotlineNumber alertId s))) = sync_queue (db s)"
proof -
  let ?log = "newCallLog pf env hotlineNumber alertId"
  let ?s1 = "s\<lparr>activeCallId := Some (ce_generateId env), callStartTime := Some (ce_now env)\<rparr>"
  from assms obtain d where d: "persistCallLog ?log (db ?s1) = Inr d"
    by (cases "persistCallLog ?log (db ?s1)") (simp_all add: makeHotlineCall_def Let_def)
  from persistCallLog_Inr [OF d]
  have rows: "call_logs d = call_logs (db s) @ [?log]" "sync_queue d = sync_queue (db s)"
    by simp_all
  have id: "cl_id ?log = ce_generateId env" by (simp add: newCallLog_def)
  from assms d have c: "callId = ce_generateId env"
    by (simp add: makeHotlineCall_def Let_def split: if_splits option.splits)
  from d rows id show ?thesis
    unfolding c
    by (simp add: makeHotlineCall_def Let_def updateCallStatus_id_set updateCallStatus_frame
          split: option.splits)
qed

lemma makeHotlineCall_not_connected:
  assumes "fst (makeHotlineCall pf env hotlineNumber alertId s) = Inr callId"
    and "ce_TwilioVoice env"
    and "ce_fetchTwilioToken env = None \<or>
         (\<exists>token. ce_fetchTwilioToken env = Some token \<and> ce_connect env token = None)"
    and "r \<in> set (call_logs (db (snd (makeHotlineCall pf env hotlineNumber alertId s))))"
    and "cl_id r = callId"
  shows "cl_status r = CallFailed"
proof -
  let ?log = "newCallLog pf env hotlineNumber alertId"
  let ?s1 = "s\<lparr>activeCallId := Some (ce_generateId env), callStartTime := Some (ce_now env)\<rparr>"
  from assms(1) obtain d where d: "persistCallLog ?log (db ?s1) = Inr d"
    by (cases "persistCallLog ?log (db ?s1)") (simp_all add: makeHotlineCall_def Let_def)
  from assms(1) d have c: "callId = ce_generateId env"
    by (simp add: makeHotlineCall_def Let_def split: if_splits option.splits)
  from assms(2,3) d have "snd (makeHotlineCall pf env hotlineNumber alertId s) =
      updateCallStatus (ce_generateId env) CallFailed (?s1\<lparr>db := d\<rparr>)"
    by (auto simp: makeHotlineCall_def Let_def)
  with assms(4,5) c show ?thesis
    by (auto dest: updateCallStatus_status)
qed

section \<open>Submitting a response\<close>

lemma captureLocation_fails:
  assumes "le_getCurrentPosition env = None"
    and "le_getLastKnownPosition env = None \<or> le_getLastKnownPosition env = Some None"
  shows "captureLocation pf env = None"
  using assms by (auto simp: captureLocation_def)

lemma enqueue_fresh:
  assumes "ee_generateId env \<notin> sq_id ` set (sync_queue (db s))"
  shows "fst (enqueue pf env t payload s) = Inr (ee_generateId env) \<and>
    sync_queue (db (snd (enqueue pf env t payload s))) =
      sync_queue (db s) @
        [\<lparr>sq_id = ee_generateId env, sq_type = t, sq_payload = JSON_stringify pf payload,
          sq_created_at = ee_created_at env, sq_status = Pending, sq_retry_count = 0,
          sq_last_error = None\<rparr>] \<and>
    user_responses (db (snd (enqueue pf env t payload s))) = user_responses (db s)"
  using assms
  by (simp add: enqueue_def insert_sync_row_def processSyncQueue_begin_def Let_def)

lemma enqueue_fails_iff:
  "(\<exists>e. fst (enqueue pf env t payload s) = Inl e) \<longleftrightarrow>
     ee_generateId env \<in> sq_id ` set (sync_queue (db s))"
  by (simp add: enqueue_def insert_sync_row_def processSyncQueue_begin_def Let_def)

lemma enqueue_error:
  "fst (enqueue pf env t payload s) = Inl e \<longleftrightarrow>
     e = PrimaryKeyViolation \<and> ee_generateId env \<in> sq_id ` set (sync_queue (db s))"
  by (auto simp: enqueue_def insert_sync_row_def processSyncQueue_begin_def Let_def)

lemma persistResponse_Inr:
  "persistResponse response d = Inr d' \<longleftrightarrow>
     ur_id response \<notin> ur_id ` set (user_responses d) \<and> ur_alertId response \<in> set (alerts d) \<and>
     d' = d\<lparr>user_responses := user_responses d @ [response]\<rparr>"
  by (auto simp: persistResponse_def)

lemma persistResponse_Inl:
  "persistResponse response d = Inl e \<longleftrightarrow>
     (if ur_id response \<in> ur_id ` set (user_responses d) then e = PrimaryKeyViolation
      else ur_alertId response \<notin> set (alerts d) \<and> e = ForeignKeyViolation)"
  by (auto simp: persistResponse_def)

lemma newResponse_fields:
  "ur_id (newResponse pf env alertId userId responseType location) = re_generateId env"
  "ur_alertId (newResponse pf env alertId userId responseType location) = alertId"
  "ur_userId (newResponse pf env alertId userId responseType location) = userId"
  "ur_response (newResponse pf env alertId userId responseType location) = responseType"
  "ur_latitude (newResponse pf env alertId userId responseType None) = None"
  "ur_longitude (newResponse pf env alertId userId responseType None) = None"
  by (simp_all add: newResponse_def)

text \<open>The error of \<open>submitResponse\<close>, if any, is decided by the ids and the alert.\<close>

lemma submitResponse_error:
  "fst (submitResponse pf env alertId userId responseType s) = Inl e \<longleftrightarrow>
     (if re_generateId env \<in> ur_id ` set (user_responses (db s)) then e = PrimaryKeyViolation
      else if alertId \<notin> set (alerts (db s)) then e = ForeignKeyViolation
      else e = PrimaryKeyViolation \<and>
           ee_generateId (re_enqueue env) \<in> sq_id ` set (sync_queue (db s)))"
proof -
  let ?r = "newResponse pf env alertId userId responseType (captureLocation pf (re_location env))"
  show ?thesis
  proof (cases "persistResponse ?r (db s)")
    case (Inl e')
    then have "fst (submitResponse pf env alertId userId responseType s) = Inl e'"
      by (simp add: submitResponse_def Let_def)
    with Inl show ?thesis
      by (auto simp: persistResponse_Inl newResponse_fields split: if_splits)
  next
    case (Inr d)
    let ?q = "enqueue pf (re_enqueue env) User_response (response_payload ?r) (s\<lparr>db := d\<rparr>)"
    from Inr have d: "re_generateId env \<notin> ur_id ` set (user_responses (db s))"
      "alertId \<in> set (alerts (db s))" "sync_queue d = sync_queue (db s)"
      by (auto simp: persistResponse_Inr newResponse_fields)
    have "fst (submitResponse pf env alertId userId responseType s) = Inl e \<longleftrightarrow> fst ?q = Inl e"
      using Inr by (cases ?q; cases "fst ?q") (simp_all add: submitResponse_def Let_def)
    with d show ?thesis
      by (simp add: enqueue_error)
  qed
qed

lemma submitResponse_ok:
  assumes "re_generateId env \<notin> ur_id ` set (user_responses (db s))"
    and "alertId \<in> set (alerts (db s))"
    and "ee_generateId (re_enqueue env) \<notin> sq_id ` set (sync_queue (db s))"
    and "response = newResponse pf env alertId userId responseType
           (captureLocation pf (re_location env))"
  shows "fst (submitResponse pf env alertId userId responseType s) = Inr response \<and>
    user_responses (db (snd (submitResponse pf env alertId userId responseType s))) =
      user_responses (db s) @ [response] \<and>
    sync_queue (db (snd (submitResponse pf env alertId userId responseType s))) =
      sync_queue (db s) @
        [\<lparr>sq_id = ee_generateId (re_enqueue env), sq_type = User_response,
          sq_payload = JSON_stringify pf (response_payload response),
          sq_created_at = ee_created_at (re_enqueue env), sq_status = Pending,
          sq_retry_count = 0, sq_last_error = None\<rparr>]"
proof -
  let ?d = "(db s)\<lparr>user_responses := user_responses (db s) @ [response]\<rparr>"
  let ?q = "enqueue pf (re_enqueue env) User_response (response_payload response) (s\<lparr>db := ?d\<rparr>)"
  from assms(1,2,4) have p: "persistResponse response (db s) = Inr ?d"
    by (simp add: persistResponse_Inr newResponse_fields)
  from assms(3) have "ee_generateId (re_enqueue env) \<notin> sq_id ` set (sync_queue (db (s\<lparr>db := ?d\<rparr>)))"
    by simp
  from enqueue_fresh [OF this, of pf User_response "response_payload response"]
  have q: "fst ?q = Inr (ee_generateId (re_enqueue env))"
    "sync_queue (db (snd ?q)) = sync_queue (db s) @
        [\<lparr>sq_id = ee_generateId (re_enqueue env), sq_type = User_response,
          sq_payload = JSON_stringify pf (response_payload response),
          sq_created_at = ee_created_at (re_enqueue env), sq_status = Pending,
          sq_retry_count = 0, sq_last_error = None\<rparr>]"
    "user_responses (db (snd ?q)) = user_responses (db s) @ [response]"
    by simp_all
  have "submitResponse pf env alertId userId responseType s = (Inr response, snd ?q)"
    using p q(1) assms(4) by (cases ?q) (simp add: submitResponse_def Let_def)
  with q(2,3) show ?thesis by simp
qed

section \<open>The transient status\<close>

lemma processItem_no_syncing:
  assumes "\<forall>r\<in>set rows. sq_status r \<noteq> Syncing"
  shows "\<forall>r\<in>set (fst (processItem pf env k item rows)). sq_status r \<noteq> Syncing"
proof
  fix r' assume "r' \<in> set (fst (processItem pf env k item rows))"
  then obtain r where r: "r \<in> set rows"
    "r' = (if sq_id r = sq_id item then item_update pf env k item r else r)"
    by (auto simp: processItem_rows)
  have "sq_status (item_update pf env k item r) \<noteq> Syncing"
    by (simp add: item_update_def split: sum.splits)
  with r assms show "sq_status r' \<noteq> Syncing" by (cases "sq_id r = sq_id item") simp_all
qed

lemma drainLoop_no_syncing:
  "\<forall>r\<in>set rows. sq_status r \<noteq> Syncing \<Longrightarrow>
   \<forall>r\<in>set (fst (drainLoop pf env k items rows n)). sq_status r \<noteq> Syncing"
proof (induction items arbitrary: k rows n)
  case Nil
  then show ?case by simp
next
  case (Cons item items)
  let ?p = "processItem pf env k item rows"
  from Cons.prems have p: "\<forall>r\<in>set (fst ?p). sq_status r \<noteq> Syncing"
    by (rule processItem_no_syncing)
  show ?case
  proof (cases "snd (snd (snd ?p))")
    case True
    with Cons.IH [OF p] show ?thesis by (simp add: drainLoop_Cons Let_def)
  next
    case False
    with p show ?thesis by (simp add: drainLoop_Cons Let_def)
  qed
qed

section \<open>Unfolding the model on concrete inputs\<close>

lemmas run_simps =
  state_of_def queue_row_def demo_platform_def online_def offline_def
  processSyncQueue_def processSyncQueue_begin_def processSyncQueue_resume_def drainPass_def
  selectPending_def is_candidate_def MAX_RETRIES_def drainLoop_Cons processItem_def deliver_def
  sendToBackend_def endpoints_def baseUrl_def mark_syncing_def mark_synced_def mark_failed_def
  errorMessage_of_def truthy_def pruneSynced_def keep_ids_def orderBy_created_at_desc_def
  Let_def enqueue_def
  insert_sync_row_def getPendingCount_def

lemmas call_simps =
  makeHotlineCall_def persistCallLog_def newCallLog_def updateCallStatus_def on_connected_def
  on_connectFailure_def on_disconnected_def handleCallEnd_def mark_disconnected_def
  callEnd_payload_def round_seconds_def endCall_def Let_def

section \<open>The claims\<close>

text \<open>
  C1. If ids are unique and no item has more than \<open>MAX_RETRIES\<close> retries,
  this stays so through every sequence of enqueues and passes; in particular
  it holds in every state reached from an empty queue. The candidates
  of a pass are pending or failed items with fewer than \<open>MAX_RETRIES\<close>
  retries. An exhausted item (failed, \<open>MAX_RETRIES\<close> retries) stays in the
  table as it is and is no candidate, whatever runs later. A failed delivery
  sets the item to failed and adds exactly one to its retry count.
\<close>

theorem retries_bounded_exhausted_excluded:
  assumes "queue_ok (sync_queue (db s))"
  shows "queue_ok (sync_queue (db (run_ops pf ops s))) \<and>
    (\<forall>r\<in>set (sync_queue (db (run_ops pf ops s))). sq_retry_count r \<le> MAX_RETRIES) \<and>
    (sync_queue (db s0) = [] \<longrightarrow>
       (\<forall>r\<in>set (sync_queue (db (run_ops pf ops s0))). sq_retry_count r \<le> MAX_RETRIES)) \<and>
    (\<forall>c\<in>set (selectPending rows).
       (sq_status c = Pending \<or> sq_status c = Failed) \<and> sq_retry_count c < MAX_RETRIES) \<and>
    (\<forall>r\<in>set (sync_queue (db s)).
       sq_status r = Failed \<and> sq_retry_count r = MAX_RETRIES \<longrightarrow>
       r \<in> set (sync_queue (db (run_ops pf ops s))) \<and>
       r \<notin> set (selectPending (sync_queue (db (run_ops pf ops s))))) \<and>
    (\<forall>r\<in>set rows'.
       sq_id r = sq_id item \<and> snd (deliver pf (de_fetch env k) item) = Inl e \<longrightarrow>
       r\<lparr>sq_status := Failed, sq_retry_count := sq_retry_count r + 1,
         sq_last_error := Some (errorMessage_of e)\<rparr>
         \<in> set (fst (processItem pf env k item rows')))"
proof -
  have inv: "queue_ok (sync_queue (db (run_ops pf ops s)))"
    using assms by (rule run_ops_queue_ok)
  then have bound: "\<forall>r\<in>set (sync_queue (db (run_ops pf ops s))). sq_retry_count r \<le> MAX_RETRIES"
    by (simp add: queue_ok_def)
  have empty: "sync_queue (db s0) = [] \<longrightarrow>
       (\<forall>r\<in>set (sync_queue (db (run_ops pf ops s0))). sq_retry_count r \<le> MAX_RETRIES)"
  proof
    assume "sync_queue (db s0) = []"
    then have "queue_ok (sync_queue (db s0))" by (simp add: queue_ok_def)
    then have "queue_ok (sync_queue (db (run_ops pf ops s0)))" by (rule run_ops_queue_ok)
    then show "\<forall>r\<in>set (sync_queue (db (run_ops pf ops s0))). sq_retry_count r \<le> MAX_RETRIES"
      by (simp add: queue_ok_def)
  qed
  have cands: "\<forall>c\<in>set (selectPending rows).
       (sq_status c = Pending \<or> sq_status c = Failed) \<and> sq_retry_count c < MAX_RETRIES"
    by (simp add: selectPending_set is_candidate_def)
  have exhausted: "\<forall>r\<in>set (sync_queue (db s)).
       sq_status r = Failed \<and> sq_retry_count r = MAX_RETRIES \<longrightarrow>
       r \<in> set (sync_queue (db (run_ops pf ops s))) \<and>
       r \<notin> set (selectPending (sync_queue (db (run_ops pf ops s))))"
  proof (intro ballI impI)
    fix r assume r: "r \<in> set (sync_queue (db s))"
      and ex: "sq_status r = Failed \<and> sq_retry_count r = MAX_RETRIES"
    then have nc: "\<not> is_candidate r" and ns: "sq_status r \<noteq> Synced"
      by (simp_all add: is_candidate_def)
    from run_ops_keeps [OF assms r nc ns] nc
    show "r \<in> set (sync_queue (db (run_ops pf ops s))) \<and>
       r \<notin> set (selectPending (sync_queue (db (run_ops pf ops s))))"
      by (simp add: selectPending_set)
  qed
  have step: "\<forall>r\<in>set rows'.
       sq_id r = sq_id item \<and> snd (deliver pf (de_fetch env k) item) = Inl e \<longrightarrow>
       r\<lparr>sq_status := Failed, sq_retry_count := sq_retry_count r + 1,
         sq_last_error := Some (errorMessage_of e)\<rparr>
         \<in> set (fst (processItem pf env k item rows'))"
    by (simp add: processItem_failed_row)
  from inv bound empty cands exhausted step show ?thesis by (intro conjI)
qed

theorem retries_bounded_exhausted_excluded_witness:
  "queue_ok (sync_queue (db last_retry_state)) \<and>
   queue_ok (sync_queue (db (run_ops demo_platform [ProcessQueue env_503] last_retry_state))) \<and>
   queue_row ''x'' 0 Failed 5
     \<in> set (sync_queue (db (run_ops demo_platform [ProcessQueue env_503] last_retry_state))) \<and>
   queue_row ''x'' 0 Failed 5
     \<notin> set (selectPending
          (sync_queue (db (run_ops demo_platform [ProcessQueue env_503] last_retry_state)))) \<and>
   map sq_retry_count
     (sync_queue (db (run_ops demo_platform [ProcessQueue env_503] last_retry_state))) = [5, 5] \<and>
   selectPending (sync_queue (db last_retry_state)) = [queue_row ''a'' 1 Failed 4]"
proof -
  have ok: "queue_ok (sync_queue (db last_retry_state))"
    by (simp add: last_retry_state_def queue_ok_def run_simps)
  have x: "queue_row ''x'' 0 Failed 5 \<in> set (sync_queue (db last_retry_state))"
    "sq_status (queue_row ''x'' 0 Failed 5) = Failed \<and>
     sq_retry_count (queue_row ''x'' 0 Failed 5) = MAX_RETRIES"
    by (simp_all add: last_retry_state_def run_simps)
  from retries_bounded_exhausted_excluded
         [OF ok, where pf = demo_platform and ops = "[ProcessQueue env_503]"] x
  have "queue_ok (sync_queue (db (run_ops demo_platform [ProcessQueue env_503] last_retry_state)))"
    "queue_row ''x'' 0 Failed 5
       \<in> set (sync_queue (db (run_ops demo_platform [ProcessQueue env_503] last_retry_state)))"
    "queue_row ''x'' 0 Failed 5
       \<notin> set (selectPending
            (sync_queue (db (run_ops demo_platform [ProcessQueue env_503] last_retry_state))))"
    by blast+
  moreover have "map sq_retry_count
     (sync_queue (db (run_ops demo_platform [ProcessQueue env_503] last_retry_state))) = [5, 5]"
    by (simp add: last_retry_state_def env_503_def run_simps)
  moreover have "selectPending (sync_queue (db last_retry_state)) = [queue_row ''a'' 1 Failed 4]"
    by (simp add: last_retry_state_def run_simps)
  ultimately show ?thesis using ok by simp
qed

text \<open>
  C2. While a pass is in flight (the flag \<open>isSyncing\<close> is set), a call of
  \<open>processSyncQueue\<close> returns 0 at its guard and leaves the whole state, the
  queue table included, as it is.
\<close>

theorem concurrent_call_returns_zero_unchanged:
  "isSyncing s \<Longrightarrow>
   processSyncQueue_begin s = None \<and> processSyncQueue pf env s = (0, s)"
  by (simp add: processSyncQueue_def processSyncQueue_begin_def)

theorem concurrent_call_returns_zero_unchanged_witness:
  "isSyncing (snd (enqueue demo_platform (enqueue_at ''q1'' 7 online) Call_log (JObj []) (state_of []))) \<and>
   processSyncQueue demo_platform env_503
     (snd (enqueue demo_platform (enqueue_at ''q1'' 7 online) Call_log (JObj []) (state_of []))) =
   (0, snd (enqueue demo_platform (enqueue_at ''q1'' 7 online) Call_log (JObj []) (state_of []))) \<and>
   map sq_status (sync_queue (db (snd (processSyncQueue demo_platform env_503
     (snd (enqueue demo_platform (enqueue_at ''q1'' 7 online) Call_log (JObj []) (state_of []))))))) =
   [Pending]"
proof -
  have flag: "isSyncing (snd (enqueue demo_platform (enqueue_at ''q1'' 7 online) Call_log (JObj [])
      (state_of [])))"
    by (simp add: enqueue_at_def run_simps)
  have rows: "map sq_status (sync_queue (db (snd (enqueue demo_platform (enqueue_at ''q1'' 7 online)
      Call_log (JObj []) (state_of []))))) = [Pending]"
    by (simp add: enqueue_at_def run_simps)
  from concurrent_call_returns_zero_unchanged [OF flag, of demo_platform env_503] flag rows
  show ?thesis by simp
qed

text \<open>
  C3. The items a pass attempts are an initial segment of its candidates, which
  are in ascending order of creation time. If the delivery of the candidate at
  position \<open>j\<close> fails and the connectivity query after it is falsy, no
  candidate created later is attempted: it is not in the trace of the pass,
  and its row is in the table after the pass as it was before.
\<close>

theorem offline_failure_aborts_later_items:
  assumes "distinct (map sq_id (sync_queue (db s)))" and "\<not> isSyncing s"
    and "j < length (selectPending (sync_queue (db s)))"
    and "snd (deliver pf (de_fetch env j) (selectPending (sync_queue (db s)) ! j)) = Inl e"
    and "\<not> truthy (isConnected (de_netState env j))"
    and "later \<in> set (selectPending (sync_queue (db s)))"
    and "sq_created_at (selectPending (sync_queue (db s)) ! j) < sq_created_at later"
  shows "sorted (map sq_created_at (selectPending (sync_queue (db s)))) \<and>
    map fst (snd (snd (drainPass pf env (sync_queue (db s))))) =
      take (length (snd (snd (drainPass pf env (sync_queue (db s))))))
        (map sq_id (selectPending (sync_queue (db s)))) \<and>
    sq_id later \<notin> fst ` set (snd (snd (drainPass pf env (sync_queue (db s))))) \<and>
    later \<in> set (sync_queue (db (snd (processSyncQueue pf env s))))"
proof -
  let ?rows = "sync_queue (db s)"
  let ?cands = "selectPending ?rows"
  let ?tr = "snd (snd (drainLoop pf env 0 ?cands ?rows 0))"
  have srt: "sorted (map sq_created_at ?cands)" by (rule selectPending_sorted)
  have pre: "map fst ?tr = take (length ?tr) (map sq_id ?cands)"
    by (rule drainLoop_trace_prefix)
  have len: "length ?tr \<le> Suc j"
    using assms(3-5) drainLoop_abort [of j ?cands pf env 0 e ?rows 0] by simp
  have "sq_id later \<notin> set (take (Suc j) (map sq_id ?cands))"
    using srt selectPending_distinct [OF assms(1)] assms(3,6,7)
    by (rule later_item_not_in_prefix)
  moreover have "set (map fst ?tr) \<subseteq> set (take (Suc j) (map sq_id ?cands))"
    by (subst pre) (rule set_take_subset_set_take [OF len])
  ultimately have notin: "sq_id later \<notin> fst ` set ?tr" by auto
  from assms(6) have l: "later \<in> set ?rows" "sq_status later \<noteq> Synced"
    by (auto simp: selectPending_set is_candidate_def)
  from drainLoop_untouched [OF l(1) notin] l(2)
  have "later \<in> set (fst (drainPass pf env ?rows))"
    by (simp add: drainPass_rows pruneSynced_keeps_unsynced)
  with assms(2) have "later \<in> set (sync_queue (db (snd (processSyncQueue pf env s))))"
    by (simp add: processSyncQueue_rows)
  with srt pre notin show ?thesis by (simp add: drainPass_trace)
qed

theorem offline_failure_aborts_later_items_witness:
  "snd (snd (drainPass demo_platform env_down (sync_queue (db (state_of three_items))))) =
     [(''a'', Some (''https://api.yourcompany.com/api/calls'', ''{}''))] \<and>
   sq_id (queue_row ''b'' 2 Pending 0)
     \<notin> fst ` set (snd (snd (drainPass demo_platform env_down (sync_queue (db (state_of three_items)))))) \<and>
   queue_row ''b'' 2 Pending 0
     \<in> set (sync_queue (db (snd (processSyncQueue demo_platform env_down (state_of three_items))))) \<and>
   sq_id (queue_row ''c'' 3 Pending 0)
     \<notin> fst ` set (snd (snd (drainPass demo_platform env_down (sync_queue (db (state_of three_items)))))) \<and>
   queue_row ''c'' 3 Pending 0
     \<in> set (sync_queue (db (snd (processSyncQueue demo_platform env_down (state_of three_items)))))"
proof -
  have cands: "selectPending (sync_queue (db (state_of three_items))) =
      [queue_row ''a'' 1 Pending 0, queue_row ''b'' 2 Pending 0, queue_row ''c'' 3 Pending 0]"
    by (simp add: three_items_def run_simps)
  have d: "distinct (map sq_id (sync_queue (db (state_of three_items))))"
    by (simp add: three_items_def run_simps)
  have idle: "\<not> isSyncing (state_of three_items)"
    by (simp add: state_of_def)
  have j: "0 < length (selectPending (sync_queue (db (state_of three_items))))"
    by (simp add: cands)
  have fails: "snd (deliver demo_platform (de_fetch env_down 0)
      (selectPending (sync_queue (db (state_of three_items))) ! 0)) =
      Inl (Error ''Network request failed'')"
    by (simp only: cands nth_Cons_0) (simp add: env_down_def run_simps)
  have off: "\<not> truthy (isConnected (de_netState env_down 0))"
    by (simp add: env_down_def offline_def truthy_def)
  have b: "queue_row ''b'' 2 Pending 0 \<in> set (selectPending (sync_queue (db (state_of three_items))))"
    "sq_created_at (selectPending (sync_queue (db (state_of three_items))) ! 0)
       < sq_created_at (queue_row ''b'' 2 Pending 0)"
    by (simp_all add: cands queue_row_def)
  have c: "queue_row ''c'' 3 Pending 0 \<in> set (selectPending (sync_queue (db (state_of three_items))))"
    "sq_created_at (selectPending (sync_queue (db (state_of three_items))) ! 0)
       < sq_created_at (queue_row ''c'' 3 Pending 0)"
    by (simp_all add: cands queue_row_def)
  have tr: "snd (snd (drainPass demo_platform env_down (sync_queue (db (state_of three_items))))) =
     [(''a'', Some (''https://api.yourcompany.com/api/calls'', ''{}''))]"
    by (simp add: three_items_def env_down_def run_simps)
  from offline_failure_aborts_later_items [OF d idle j fails off b]
       offline_failure_aborts_later_items [OF d idle j fails off c] tr
  show ?thesis by simp
qed

text \<open>
  C4. The call has been ended by \<open>endCall\<close> (a first \<open>disconnected\<close> event
  leaves the same state): its row is disconnected with a duration of 60
  seconds, and one \<open>call_log\<close> item is queued. The \<open>disconnected\<close> event
  that the transport then delivers for the same call is handled in full once
  more: it overwrites the duration with \<open>NULL\<close> and queues a second item. A
  second \<open>endCall\<close>, which looks at \<open>activeCallId\<close> first, changes nothing.
\<close>

theorem second_disconnected_event_is_handled_again:
  "snd (on_disconnected demo_platform first_end ''call-1'' (on_connected ''call-1'' placed_call)) =
     ended_call \<and>
   map cl_status (call_logs (db ended_call)) = [Disconnected] \<and>
   map cl_duration_seconds (call_logs (db ended_call)) = [Some 60] \<and>
   map sq_id (sync_queue (db ended_call)) = [''q1''] \<and>
   map cl_duration_seconds
     (call_logs (db (snd (on_disconnected demo_platform second_end ''call-1'' ended_call)))) = [None] \<and>
   map sq_id (sync_queue (db (snd (on_disconnected demo_platform second_end ''call-1'' ended_call)))) =
     [''q1'', ''q2''] \<and>
   call_logs (db (snd (on_disconnected demo_platform second_end ''call-1'' ended_call))) \<noteq>
     call_logs (db ended_call) \<and>
   endCall demo_platform second_end ended_call = (Inr (), ended_call)"
proof -
  have connected: "on_connected ''call-1'' placed_call =
     \<lparr>db = \<lparr>alerts = [], user_responses = [],
             call_logs = [(newCallLog demo_platform call_env_ok ''911'' None)\<lparr>cl_status := Connected\<rparr>],
             sync_queue = []\<rparr>,
      isSyncing = False, activeCallId = Some ''call-1'', activeCallSid = Some ''CA1'',
      callStartTime = Some 0\<rparr>"
    by (simp add: placed_call_def call_env_ok_def state_of_def makeHotlineCall_def
          persistCallLog_def on_connected_def updateCallStatus_def Let_def)
       (simp add: newCallLog_def call_env_ok_def)
  have ended: "ended_call =
     \<lparr>db = \<lparr>alerts = [], user_responses = [],
             call_logs = [(newCallLog demo_platform call_env_ok ''911'' None)
                \<lparr>cl_status := Disconnected,
                  cl_ended_at := Some (toISOString demo_platform 60000),
                  cl_duration_seconds := Some 60\<rparr>],
             sync_queue = [\<lparr>sq_id = ''q1'', sq_type = Call_log,
                sq_payload = JSON_stringify demo_platform
                  (callEnd_payload ''call-1'' (toISOString demo_platform 60000) (Some 60)),
                sq_created_at = 60, sq_status = Pending, sq_retry_count = 0,
                sq_last_error = None\<rparr>]\<rparr>,
      isSyncing = False, activeCallId = None, activeCallSid = None, callStartTime = None\<rparr>"
    unfolding ended_call_def connected
    by (simp add: endCall_def handleCallEnd_def first_end_def enqueue_at_def offline_def
          mark_disconnected_def round_seconds_def enqueue_def insert_sync_row_def truthy_def Let_def)
       (simp add: newCallLog_def call_env_ok_def)
  have first_event: "snd (on_disconnected demo_platform first_end ''call-1''
      (on_connected ''call-1'' placed_call)) = ended_call"
    unfolding ended_call_def connected
    by (simp add: on_disconnected_def endCall_def)
  have again: "snd (on_disconnected demo_platform second_end ''call-1'' ended_call) =
     \<lparr>db = \<lparr>alerts = [], user_responses = [],
             call_logs = [(newCallLog demo_platform call_env_ok ''911'' None)
                \<lparr>cl_status := Disconnected,
                  cl_ended_at := Some (toISOString demo_platform 61000),
                  cl_duration_seconds := None\<rparr>],
             sync_queue = [\<lparr>sq_id = ''q1'', sq_type = Call_log,
                sq_payload = JSON_stringify demo_platform
                  (callEnd_payload ''call-1'' (toISOString demo_platform 60000) (Some 60)),
                sq_created_at = 60, sq_status = Pending, sq_retry_count = 0,
                sq_last_error = None\<rparr>,
               \<lparr>sq_id = ''q2'', sq_type = Call_log,
                sq_payload = JSON_stringify demo_platform
                  (callEnd_payload ''call-1'' (toISOString demo_platform 61000) None),
                sq_created_at = 61, sq_status = Pending, sq_retry_count = 0,
                sq_last_error = None\<rparr>]\<rparr>,
      isSyncing = False, activeCallId = None, activeCallSid = None, callStartTime = None\<rparr>"
    unfolding ended
    by (simp add: on_disconnected_def handleCallEnd_def second_end_def enqueue_at_def offline_def
          mark_disconnected_def enqueue_def insert_sync_row_def truthy_def Let_def)
       (simp add: newCallLog_def call_env_ok_def)
  have noop: "endCall demo_platform second_end ended_call = (Inr (), ended_call)"
    unfolding ended by (simp add: endCall_def)
  have differs: "call_logs (db (snd (on_disconnected demo_platform second_end ''call-1'' ended_call))) \<noteq>
     call_logs (db ended_call)"
  proof
    assume "call_logs (db (snd (on_disconnected demo_platform second_end ''call-1'' ended_call))) =
      call_logs (db ended_call)"
    then have "map cl_duration_seconds
        (call_logs (db (snd (on_disconnected demo_platform second_end ''call-1'' ended_call)))) =
      map cl_duration_seconds (call_logs (db ended_call))"
      by simp
    then show False unfolding again by (simp add: ended)
  qed
  have facts: "map cl_status (call_logs (db ended_call)) = [Disconnected]"
    "map cl_duration_seconds (call_logs (db ended_call)) = [Some 60]"
    "map sq_id (sync_queue (db ended_call)) = [''q1'']"
    by (simp_all add: ended)
  have facts2: "map cl_duration_seconds
     (call_logs (db (snd (on_disconnected demo_platform second_end ''call-1'' ended_call)))) = [None]"
    "map sq_id (sync_queue (db (snd (on_disconnected demo_platform second_end ''call-1'' ended_call)))) =
     [''q1'', ''q2'']"
    by (simp_all add: again)
  from first_event facts facts2 differs noop show ?thesis by (intro conjI)
qed

text \<open>
  C5. A call that has been placed has its row in \<open>call_logs\<close>, and placing
  it enqueues nothing. When the backend then reports a connect failure, the
  handler sets the status of that row to failed and leaves the sync queue as it
  is. The same holds when the token request or \<open>connect\<close> throws inside
  \<open>makeHotlineCall\<close>.
\<close>

theorem connect_failure_is_failed_and_not_enqueued:
  "(fst (makeHotlineCall pf env hotlineNumber alertId s) = Inr callId \<longrightarrow>
      callId \<in> cl_id ` set (call_logs (db (snd (makeHotlineCall pf env hotlineNumber alertId s)))) \<and>
      sync_queue (db (snd (makeHotlineCall pf env hotlineNumber alertId s))) = sync_queue (db s) \<and>
      (ce_TwilioVoice env \<and>
       (ce_fetchTwilioToken env = None \<or>
        (\<exists>token. ce_fetchTwilioToken env = Some token \<and> ce_connect env token = None)) \<longrightarrow>
       (\<forall>r\<in>set (call_logs (db (snd (makeHotlineCall pf env hotlineNumber alertId s)))).
          cl_id r = callId \<longrightarrow> cl_status r = CallFailed))) \<and>
   (callId \<in> cl_id ` set (call_logs (db s2)) \<longrightarrow>
      (\<exists>r\<in>set (call_logs (db (on_connectFailure callId s2))).
         cl_id r = callId \<and> cl_status r = CallFailed)) \<and>
   (\<forall>r\<in>set (call_logs (db (on_connectFailure callId s2))).
      cl_id r = callId \<longrightarrow> cl_status r = CallFailed) \<and>
   map cl_id (call_logs (db (on_connectFailure callId s2))) = map cl_id (call_logs (db s2)) \<and>
   sync_queue (db (on_connectFailure callId s2)) = sync_queue (db s2)"
proof -
  have placed: "fst (makeHotlineCall pf env hotlineNumber alertId s) = Inr callId \<longrightarrow>
      callId \<in> cl_id ` set (call_logs (db (snd (makeHotlineCall pf env hotlineNumber alertId s)))) \<and>
      sync_queue (db (snd (makeHotlineCall pf env hotlineNumber alertId s))) = sync_queue (db s) \<and>
      (ce_TwilioVoice env \<and>
       (ce_fetchTwilioToken env = None \<or>
        (\<exists>token. ce_fetchTwilioToken env = Some token \<and> ce_connect env token = None)) \<longrightarrow>
       (\<forall>r\<in>set (call_logs (db (snd (makeHotlineCall pf env hotlineNumber alertId s)))).
          cl_id r = callId \<longrightarrow> cl_status r = CallFailed))"
    using makeHotlineCall_placed [of pf env hotlineNumber alertId s callId]
      makeHotlineCall_not_connected [of pf env hotlineNumber alertId s callId]
    by blast
  have all: "\<forall>r\<in>set (call_logs (db (on_connectFailure callId s2))).
      cl_id r = callId \<longrightarrow> cl_status r = CallFailed"
    unfolding on_connectFailure_def by (blast dest: updateCallStatus_status)
  have ids: "map cl_id (call_logs (db (on_connectFailure callId s2))) = map cl_id (call_logs (db s2))"
    unfolding on_connectFailure_def by (rule updateCallStatus_ids)
  have ex: "callId \<in> cl_id ` set (call_logs (db s2)) \<longrightarrow>
      (\<exists>r\<in>set (call_logs (db (on_connectFailure callId s2))).
         cl_id r = callId \<and> cl_status r = CallFailed)"
  proof
    assume "callId \<in> cl_id ` set (call_logs (db s2))"
    then have "callId \<in> cl_id ` set (call_logs (db (on_connectFailure callId s2)))"
      unfolding on_connectFailure_def by (simp only: updateCallStatus_id_set)
    with all show "\<exists>r\<in>set (call_logs (db (on_connectFailure callId s2))).
         cl_id r = callId \<and> cl_status r = CallFailed"
      by blast
  qed
  have queue: "sync_queue (db (on_connectFailure callId s2)) = sync_queue (db s2)"
    unfolding on_connectFailure_def by (simp add: updateCallStatus_frame)
  from placed ex all ids queue show ?thesis by (intro conjI)
qed

theorem connect_failure_is_failed_and_not_enqueued_witness:
  "fst (makeHotlineCall demo_platform call_env_ok ''911'' None (state_of [])) = Inr ''call-1'' \<and>
   ''call-1'' \<in> cl_id ` set (call_logs (db placed_call)) \<and>
   map cl_status (call_logs (db placed_call)) = [Connecting] \<and>
   map cl_status (call_logs (db (on_connectFailure ''call-1'' placed_call))) = [CallFailed] \<and>
   sync_queue (db (on_connectFailure ''call-1'' placed_call)) = []"
proof -
  have placed: "fst (makeHotlineCall demo_platform call_env_ok ''911'' None (state_of [])) =
      Inr ''call-1''"
    by (simp add: call_env_ok_def state_of_def call_simps)
  note claim = connect_failure_is_failed_and_not_enqueued
    [of demo_platform call_env_ok "''911''" None "state_of []" "''call-1''" placed_call]
  from claim placed have row: "''call-1'' \<in> cl_id ` set (call_logs (db placed_call))"
    and empty: "sync_queue (db placed_call) = sync_queue (db (state_of []))"
    unfolding placed_call_def by blast+
  from claim have "sync_queue (db (on_connectFailure ''call-1'' placed_call)) =
      sync_queue (db placed_call)"
    by (elim conjE)
  with empty have queue: "sync_queue (db (on_connectFailure ''call-1'' placed_call)) = []"
    by (simp add: state_of_def)
  have before: "map cl_status (call_logs (db placed_call)) = [Connecting]"
    by (simp add: placed_call_def call_env_ok_def state_of_def call_simps)
  have after: "map cl_status (call_logs (db (on_connectFailure ''call-1'' placed_call))) =
      [CallFailed]"
    by (simp add: placed_call_def call_env_ok_def state_of_def call_simps)
  from placed row before after queue show ?thesis by (intro conjI)
qed

text \<open>
  C6. Let the position request throw and the last-known lookup throw or
  return \<open>null\<close>. If the store takes the two rows (the generated ids are new
  and the alert has a row in \<open>alerts\<close>, which the foreign key of
  \<open>user_responses\<close> asks for), \<open>submitResponse\<close> returns the response with
  latitude and longitude \<open>null\<close>, has appended it to \<open>user_responses\<close> and
  has appended a pending \<open>user_response\<close> item with its serialization to the
  queue. If it fails, it fails with the same error whatever the location
  provider answers: the failed capture is never the cause.
\<close>

theorem location_failure_never_blocks_response:
  assumes "le_getCurrentPosition (re_location env) = None"
    and "le_getLastKnownPosition (re_location env) = None \<or>
         le_getLastKnownPosition (re_location env) = Some None"
  shows "(re_generateId env \<notin> ur_id ` set (user_responses (db s)) \<and>
      alertId \<in> set (alerts (db s)) \<and>
      ee_generateId (re_enqueue env) \<notin> sq_id ` set (sync_queue (db s)) \<longrightarrow>
      (\<exists>response.
         fst (submitResponse pf env alertId userId responseType s) = Inr response \<and>
         ur_alertId response = alertId \<and> ur_userId response = userId \<and>
         ur_response response = responseType \<and>
         ur_latitude response = None \<and> ur_longitude response = None \<and>
         user_responses (db (snd (submitResponse pf env alertId userId responseType s))) =
           user_responses (db s) @ [response] \<and>
         sync_queue (db (snd (submitResponse pf env alertId userId responseType s))) =
           sync_queue (db s) @
             [\<lparr>sq_id = ee_generateId (re_enqueue env), sq_type = User_response,
               sq_payload = JSON_stringify pf (response_payload response),
               sq_created_at = ee_created_at (re_enqueue env), sq_status = Pending,
               sq_retry_count = 0, sq_last_error = None\<rparr>])) \<and>
    (fst (submitResponse pf env alertId userId responseType s) = Inl e \<longrightarrow>
       fst (submitResponse pf (env\<lparr>re_location := other\<rparr>) alertId userId responseType s) = Inl e)"
proof -
  have none: "captureLocation pf (re_location env) = None"
    using assms by (rule captureLocation_fails)
  let ?response = "newResponse pf env alertId userId responseType None"
  have ok: "re_generateId env \<notin> ur_id ` set (user_responses (db s)) \<and>
      alertId \<in> set (alerts (db s)) \<and>
      ee_generateId (re_enqueue env) \<notin> sq_id ` set (sync_queue (db s)) \<longrightarrow>
      (\<exists>response.
         fst (submitResponse pf env alertId userId responseType s) = Inr response \<and>
         ur_alertId response = alertId \<and> ur_userId response = userId \<and>
         ur_response response = responseType \<and>
         ur_latitude response = None \<and> ur_longitude response = None \<and>
         user_responses (db (snd (submitResponse pf env alertId userId responseType s))) =
           user_responses (db s) @ [response] \<and>
         sync_queue (db (snd (submitResponse pf env alertId userId responseType s))) =
           sync_queue (db s) @
             [\<lparr>sq_id = ee_generateId (re_enqueue env), sq_type = User_response,
               sq_payload = JSON_stringify pf (response_payload response),
               sq_created_at = ee_created_at (re_enqueue env), sq_status = Pending,
               sq_retry_count = 0, sq_last_error = None\<rparr>])"
  proof
    assume store: "re_generateId env \<notin> ur_id ` set (user_responses (db s)) \<and>
      alertId \<in> set (alerts (db s)) \<and>
      ee_generateId (re_enqueue env) \<notin> sq_id ` set (sync_queue (db s))"
    have "?response = newResponse pf env alertId userId responseType
        (captureLocation pf (re_location env))"
      by (simp add: none)
    with store have "fst (submitResponse pf env alertId userId responseType s) = Inr ?response \<and>
      user_responses (db (snd (submitResponse pf env alertId userId responseType s))) =
        user_responses (db s) @ [?response] \<and>
      sync_queue (db (snd (submitResponse pf env alertId userId responseType s))) =
        sync_queue (db s) @
          [\<lparr>sq_id = ee_generateId (re_enqueue env), sq_type = User_response,
            sq_payload = JSON_stringify pf (response_payload ?response),
            sq_created_at = ee_created_at (re_enqueue env), sq_status = Pending,
            sq_retry_count = 0, sq_last_error = None\<rparr>]"
      by (intro submitResponse_ok) simp_all
    then show "\<exists>response.
         fst (submitResponse pf env alertId userId responseType s) = Inr response \<and>
         ur_alertId response = alertId \<and> ur_userId response = userId \<and>
         ur_response response = responseType \<and>
         ur_latitude response = None \<and> ur_longitude response = None \<and>
         user_responses (db (snd (submitResponse pf env alertId userId responseType s))) =
           user_responses (db s) @ [response] \<and>
         sync_queue (db (snd (submitResponse pf env alertId userId responseType s))) =
           sync_queue (db s) @
             [\<lparr>sq_id = ee_generateId (re_enqueue env), sq_type = User_response,
               sq_payload = JSON_stringify pf (response_payload response),
               sq_created_at = ee_created_at (re_enqueue env), sq_status = Pending,
               sq_retry_count = 0, sq_last_error = None\<rparr>]"
      by (intro exI [of _ ?response]) (simp add: newResponse_fields)
  qed
  have same: "fst (submitResponse pf env alertId userId responseType s) = Inl e \<longrightarrow>
       fst (submitResponse pf (env\<lparr>re_location := other\<rparr>) alertId userId responseType s) = Inl e"
    by (simp add: submitResponse_error)
  from ok same show ?thesis by (intro conjI)
qed

theorem location_failure_never_blocks_response_witness:
  "le_getCurrentPosition (re_location response_env_demo) = None \<and>
   le_getLastKnownPosition (re_location response_env_demo) = None \<and>
   fst (submitResponse demo_platform response_env_demo ''A1'' ''u1'' Safe alert_state) =
     Inr (newResponse demo_platform response_env_demo ''A1'' ''u1'' Safe None) \<and>
   ur_latitude (newResponse demo_platform response_env_demo ''A1'' ''u1'' Safe None) = None \<and>
   ur_longitude (newResponse demo_platform response_env_demo ''A1'' ''u1'' Safe None) = None \<and>
   user_responses (db (snd (submitResponse demo_platform response_env_demo ''A1'' ''u1'' Safe
      alert_state))) = [newResponse demo_platform response_env_demo ''A1'' ''u1'' Safe None] \<and>
   map sq_type (sync_queue (db (snd (submitResponse demo_platform response_env_demo ''A1'' ''u1'' Safe
      alert_state)))) = [User_response] \<and>
   map sq_status (sync_queue (db (snd (submitResponse demo_platform response_env_demo ''A1'' ''u1''
      Safe alert_state)))) = [Pending]"
proof -
  have loc: "le_getCurrentPosition (re_location response_env_demo) = None"
    "le_getLastKnownPosition (re_location response_env_demo) = None"
    by (simp_all add: response_env_demo_def no_location_def)
  have store: "re_generateId response_env_demo \<notin> ur_id ` set (user_responses (db alert_state)) \<and>
      ''A1'' \<in> set (alerts (db alert_state)) \<and>
      ee_generateId (re_enqueue response_env_demo) \<notin> sq_id ` set (sync_queue (db alert_state))"
    by (simp add: alert_state_def)
  from location_failure_never_blocks_response
         [OF loc(1) disjI1 [OF loc(2)], of alert_state "''A1''" demo_platform "''u1''" Safe]
       store
  obtain response where r:
    "fst (submitResponse demo_platform response_env_demo ''A1'' ''u1'' Safe alert_state) = Inr response"
    "user_responses (db (snd (submitResponse demo_platform response_env_demo ''A1'' ''u1'' Safe
       alert_state))) = user_responses (db alert_state) @ [response]"
    "sync_queue (db (snd (submitResponse demo_platform response_env_demo ''A1'' ''u1'' Safe
       alert_state))) = sync_queue (db alert_state) @
         [\<lparr>sq_id = ee_generateId (re_enqueue response_env_demo), sq_type = User_response,
           sq_payload = JSON_stringify demo_platform (response_payload response),
           sq_created_at = ee_created_at (re_enqueue response_env_demo), sq_status = Pending,
           sq_retry_count = 0, sq_last_error = None\<rparr>]"
    by blast
  have "fst (submitResponse demo_platform response_env_demo ''A1'' ''u1'' Safe alert_state) =
      Inr (newResponse demo_platform response_env_demo ''A1'' ''u1'' Safe None)"
    by (simp add: submitResponse_def captureLocation_def response_env_demo_def no_location_def
          alert_state_def persistResponse_def enqueue_def insert_sync_row_def enqueue_at_def
          offline_def truthy_def Let_def newResponse_def)
  with r(1) have eq: "response = newResponse demo_platform response_env_demo ''A1'' ''u1'' Safe None"
    by simp
  from loc r eq show ?thesis
    by (simp add: newResponse_fields alert_state_def)
qed

text \<open>
  For an alert that has no row in \<open>alerts\<close> the INSERT is refused: with the
  same failing location capture, \<open>submitResponse\<close> throws and leaves the
  state as it was.
\<close>

theorem response_to_unknown_alert_is_rejected:
  "le_getCurrentPosition (re_location response_env_demo) = None \<and>
   le_getLastKnownPosition (re_location response_env_demo) = None \<and>
   fst (submitResponse demo_platform response_env_demo ''A2'' ''u1'' Safe alert_state) =
     Inl ForeignKeyViolation \<and>
   snd (submitResponse demo_platform response_env_demo ''A2'' ''u1'' Safe alert_state) = alert_state"
  by (simp add: submitResponse_def captureLocation_def response_env_demo_def no_location_def
        alert_state_def persistResponse_def newResponse_def Let_def)



text \<open>
  C8. If the generated id is new, \<open>enqueue\<close> returns it and appends one row
  with the serialized payload, status pending and no retries. It fails exactly
  when the INSERT fails (the id is taken), and then changes nothing. Its result
  and the database it leaves are the same for every answer of the connectivity
  query. When the answer is online, the returned state has a pass started
  (\<open>isSyncing\<close>) while the new row is still pending; otherwise the flag is as
  before.
\<close>

theorem enqueue_persists_pending_item:
  "(ee_generateId env \<notin> set (map sq_id (sync_queue (db s))) \<longrightarrow>
      fst (enqueue pf env t payload s) = Inr (ee_generateId env) \<and>
      sync_queue (db (snd (enqueue pf env t payload s))) =
        sync_queue (db s) @
          [\<lparr>sq_id = ee_generateId env, sq_type = t, sq_payload = JSON_stringify pf payload,
            sq_created_at = ee_created_at env, sq_status = Pending, sq_retry_count = 0,
            sq_last_error = None\<rparr>] \<and>
      isSyncing (snd (enqueue pf env t payload s)) =
        (isSyncing s \<or>
         truthy (isConnected (ee_netState env)) \<and> truthy (isInternetReachable (ee_netState env)))) \<and>
   (fst (enqueue pf env t payload s) = Inl e \<longleftrightarrow>
      e = PrimaryKeyViolation \<and> ee_generateId env \<in> set (map sq_id (sync_queue (db s)))) \<and>
   (ee_generateId env \<in> set (map sq_id (sync_queue (db s))) \<longrightarrow>
      snd (enqueue pf env t payload s) = s) \<and>
   fst (enqueue pf (env\<lparr>ee_netState := net\<rparr>) t payload s) = fst (enqueue pf env t payload s) \<and>
   db (snd (enqueue pf (env\<lparr>ee_netState := net\<rparr>) t payload s)) =
     db (snd (enqueue pf env t payload s))"
  by (auto simp: enqueue_def insert_sync_row_def processSyncQueue_begin_def Let_def)

theorem enqueue_persists_pending_item_witness:
  "ee_generateId (enqueue_at ''q1'' 7 online) \<notin> set (map sq_id (sync_queue (db (state_of [])))) \<and>
   fst (enqueue demo_platform (enqueue_at ''q1'' 7 online) Call_log (JObj []) (state_of [])) = Inr ''q1'' \<and>
   sync_queue (db (snd (enqueue demo_platform (enqueue_at ''q1'' 7 online) Call_log (JObj [])
      (state_of [])))) = [queue_row ''q1'' 7 Pending 0] \<and>
   isSyncing (snd (enqueue demo_platform (enqueue_at ''q1'' 7 online) Call_log (JObj []) (state_of []))) \<and>
   \<not> isSyncing (snd (enqueue demo_platform (enqueue_at ''q1'' 7 offline) Call_log (JObj [])
      (state_of []))) \<and>
   fst (enqueue demo_platform (enqueue_at ''q1'' 8 offline) Call_log (JObj [])
      (state_of [queue_row ''q1'' 7 Pending 0])) = Inl PrimaryKeyViolation"
proof -
  have fresh:
    "ee_generateId (enqueue_at ''q1'' 7 online) \<notin> set (map sq_id (sync_queue (db (state_of []))))"
    by (simp add: enqueue_at_def state_of_def)
  have taken: "ee_generateId (enqueue_at ''q1'' 8 offline)
      \<in> set (map sq_id (sync_queue (db (state_of [queue_row ''q1'' 7 Pending 0]))))"
    by (simp add: enqueue_at_def state_of_def queue_row_def)
  have off: "\<not> isSyncing (snd (enqueue demo_platform (enqueue_at ''q1'' 7 offline) Call_log (JObj [])
      (state_of [])))"
    by (simp add: enqueue_at_def run_simps)
  from enqueue_persists_pending_item
         [of "enqueue_at ''q1'' 7 online" "state_of []" demo_platform Call_log "JObj []"] fresh
  have "fst (enqueue demo_platform (enqueue_at ''q1'' 7 online) Call_log (JObj []) (state_of [])) =
      Inr ''q1''"
    "sync_queue (db (snd (enqueue demo_platform (enqueue_at ''q1'' 7 online) Call_log (JObj [])
      (state_of [])))) = [queue_row ''q1'' 7 Pending 0]"
    "isSyncing (snd (enqueue demo_platform (enqueue_at ''q1'' 7 online) Call_log (JObj [])
      (state_of [])))"
    by (simp_all add: enqueue_at_def state_of_def queue_row_def demo_platform_def online_def
          truthy_def)
  moreover from enqueue_persists_pending_item
         [of "enqueue_at ''q1'' 8 offline" "state_of [queue_row ''q1'' 7 Pending 0]" demo_platform
            Call_log "JObj []" PrimaryKeyViolation] taken
  have "fst (enqueue demo_platform (enqueue_at ''q1'' 8 offline) Call_log (JObj [])
      (state_of [queue_row ''q1'' 7 Pending 0])) = Inl PrimaryKeyViolation"
    by simp
  ultimately show ?thesis using fresh off by simp
qed






section \<open>Further properties\<close>

text \<open>
  A pass over an empty queue returns 0 and leaves the state as it is.
\<close>

theorem empty_queue_pass_is_noop:
  "sync_queue (db s) = [] \<Longrightarrow> processSyncQueue pf env s = (0, s)"
  by (cases "isSyncing s")
     (simp_all add: processSyncQueue_def processSyncQueue_begin_def processSyncQueue_resume_def
        drainPass_def selectPending_def pruneSynced_def)

theorem empty_queue_pass_is_noop_witness:
  "sync_queue (db (state_of [])) = [] \<and>
   processSyncQueue demo_platform env_ok (state_of []) = (0, state_of [])"
proof -
  have e: "sync_queue (db (state_of [])) = []" by (simp add: state_of_def)
  from empty_queue_pass_is_noop [OF e, of demo_platform env_ok] e show ?thesis by simp
qed

text \<open>
  The status \<open>syncing\<close> is transient: if no row has it before a pass, no
  row has it after the pass, whether deliveries succeed, fail or the pass is
  cut short.
\<close>

theorem syncing_is_never_left_behind:
  assumes "\<forall>r\<in>set (sync_queue (db s)). sq_status r \<noteq> Syncing"
  shows "\<forall>r\<in>set (sync_queue (db (snd (processSyncQueue pf env s)))). sq_status r \<noteq> Syncing"
proof (cases "isSyncing s")
  case True
  with assms show ?thesis by (simp add: processSyncQueue_rows)
next
  case False
  let ?loop = "fst (drainLoop pf env 0 (selectPending (sync_queue (db s))) (sync_queue (db s)) 0)"
  from assms have "\<forall>r\<in>set ?loop. sq_status r \<noteq> Syncing"
    by (rule drainLoop_no_syncing)
  with pruneSynced_subset [of ?loop] False show ?thesis
    by (auto simp: processSyncQueue_rows drainPass_rows)
qed

theorem syncing_is_never_left_behind_witness:
  "map sq_status (sync_queue (db (state_of three_items))) = [Pending, Pending, Pending] \<and>
   map sq_status (sync_queue (db (snd (processSyncQueue demo_platform env_down
     (state_of three_items))))) = [Pending, Failed, Pending]"
proof -
  have before: "\<forall>r\<in>set (sync_queue (db (state_of three_items))). sq_status r \<noteq> Syncing"
    by (simp add: three_items_def state_of_def queue_row_def)
  have a: "map sq_status (sync_queue (db (state_of three_items))) = [Pending, Pending, Pending]"
    by (simp add: three_items_def state_of_def queue_row_def)
  have b: "map sq_status (sync_queue (db (snd (processSyncQueue demo_platform env_down
     (state_of three_items))))) = [Pending, Failed, Pending]"
    by (simp add: three_items_def env_down_def run_simps)
  from syncing_is_never_left_behind [OF before, of demo_platform env_down] a b
  show ?thesis by simp
qed

text \<open>
  Six items whose delivery always fails: after five passes each has five
  retries and status failed; the sixth pass finds no candidate, attempts
  nothing and returns 0, while \<open>getPendingCount\<close> still counts the six.
\<close>

theorem six_failing_items_are_exhausted_after_five_passes:
  "map sq_retry_count (sync_queue (db after_five_passes)) = [5, 5, 5, 5, 5, 5] \<and>
   map sq_status (sync_queue (db after_five_passes)) =
     [Failed, Failed, Failed, Failed, Failed, Failed] \<and>
   selectPending (sync_queue (db after_five_passes)) = [] \<and>
   snd (snd (drainPass demo_platform env_503 (sync_queue (db after_five_passes)))) = [] \<and>
   fst (processSyncQueue demo_platform env_503 after_five_passes) = 0 \<and>
   getPendingCount after_five_passes = 6"
proof -
  have rows: "map (\<lambda>r. (sq_id r, sq_status r, sq_retry_count r)) (sync_queue (db after_five_passes)) =
      [(''q'', Failed, 5), (''qq'', Failed, 5), (''qqq'', Failed, 5), (''qqqq'', Failed, 5),
       (''qqqqq'', Failed, 5), (''qqqqqq'', Failed, 5)]"
    and idle: "\<not> isSyncing after_five_passes"
    by (simp_all add: after_five_passes_def six_items_def pending_rows_def upt_rec env_503_def
          run_simps)
  have retries: "map sq_retry_count (sync_queue (db after_five_passes)) = [5, 5, 5, 5, 5, 5]"
  proof -
    have "map sq_retry_count (sync_queue (db after_five_passes)) =
        map (\<lambda>t. snd (snd t))
          (map (\<lambda>r. (sq_id r, sq_status r, sq_retry_count r)) (sync_queue (db after_five_passes)))"
      by (simp add: comp_def)
    then show ?thesis by (simp only: rows) simp
  qed
  have statuses: "map sq_status (sync_queue (db after_five_passes)) =
      [Failed, Failed, Failed, Failed, Failed, Failed]"
  proof -
    have "map sq_status (sync_queue (db after_five_passes)) =
        map (\<lambda>t. fst (snd t))
          (map (\<lambda>r. (sq_id r, sq_status r, sq_retry_count r)) (sync_queue (db after_five_passes)))"
      by (simp add: comp_def)
    then show ?thesis by (simp only: rows) simp
  qed
  have exhausted: "filter is_candidate (sync_queue (db after_five_passes)) = []"
  proof -
    have "sq_retry_count r = 5" if "r \<in> set (sync_queue (db after_five_passes))" for r
    proof -
      from that have "sq_retry_count r \<in> set (map sq_retry_count (sync_queue (db after_five_passes)))"
        by simp
      then show ?thesis by (simp only: retries) simp
    qed
    then show ?thesis
      by (simp add: filter_empty_conv is_candidate_def MAX_RETRIES_def)
  qed
  then have none: "selectPending (sync_queue (db after_five_passes)) = []"
    by (simp add: selectPending_def)
  then have tr: "snd (snd (drainPass demo_platform env_503 (sync_queue (db after_five_passes)))) = []"
    by (simp add: drainPass_def)
  have ret: "fst (processSyncQueue demo_platform env_503 after_five_passes) = 0"
    using idle none
    by (simp add: processSyncQueue_def processSyncQueue_begin_def processSyncQueue_resume_def
          drainPass_def)
  have cnt: "getPendingCount after_five_passes = 6"
  proof -
    have "sq_status r = Failed" if "r \<in> set (sync_queue (db after_five_passes))" for r
    proof -
      from that have "sq_status r \<in> set (map sq_status (sync_queue (db after_five_passes)))"
        by simp
      then show ?thesis by (simp only: statuses) simp
    qed
    then have "filter (\<lambda>r. sq_status r = Pending \<or> sq_status r = Failed)
        (sync_queue (db after_five_passes)) = sync_queue (db after_five_passes)"
      by (simp add: filter_id_conv)
    moreover have "length (sync_queue (db after_five_passes)) =
        length (map sq_status (sync_queue (db after_five_passes)))"
      by simp
    ultimately show ?thesis by (simp only: getPendingCount_def statuses) simp
  qed
  from retries statuses none tr ret cnt show ?thesis by (intro conjI)
qed

end
